theory Spec2Isabelle
  imports Complex_Main "HOL-Library.Char_ord" "HOL-Library.List_Lexorder"
begin

section \<open>Rolling and exponentially weighted moments (pandas/stats/moments.py)\<close>

text \<open>
  A shallow embedding of \<^verbatim>\<open>src/pandas/stats/moments.py\<close>.  The Python module is a thin
  layer over three collaborators that are not part of the file: the compiled kernels of
  \<^verbatim>\<open>pandas._tseries\<close>, the containers \<^verbatim>\<open>Series\<close> and \<^verbatim>\<open>DataFrame\<close>, and numpy's
  element-wise arithmetic.  The kernels are parameters of the model (a record of
  functions, one field per kernel the module calls); the container and array primitives
  the module uses are modelled from the specification and marked as such.
\<close>

subsection \<open>Floating-point values\<close>

text \<open>
  A double is a finite number, one of the two infinities, or NaN (the missing-value
  marker).  Finite arithmetic is exact: rounding, overflow and the sign of zero are
  abstracted away; the treatment of NaN and of the infinities follows IEEE 754, which is
  what the masking and gating logic of the module depends on.
\<close>

datatype fl = Fin real | PInf | NInf | NaN

fun isnan :: "fl \<Rightarrow> bool" where
  "isnan NaN = True"
| "isnan _ = False"

fun isinf :: "fl \<Rightarrow> bool" where
  "isinf PInf = True"
| "isinf NInf = True"
| "isinf _ = False"

fun isfinite :: "fl \<Rightarrow> bool" where
  "isfinite (Fin _) = True"
| "isfinite _ = False"

text \<open>\<^verbatim>\<open>notnull\<close> of pandas on a float array: everything but NaN.\<close>

definition notnull :: "fl \<Rightarrow> bool" where
  "notnull v = (\<not> isnan v)"

fun fneg :: "fl \<Rightarrow> fl" where
  "fneg (Fin a) = Fin (- a)"
| "fneg PInf = NInf"
| "fneg NInf = PInf"
| "fneg NaN = NaN"

fun fadd :: "fl \<Rightarrow> fl \<Rightarrow> fl" where
  "fadd NaN _ = NaN"
| "fadd _ NaN = NaN"
| "fadd (Fin a) (Fin b) = Fin (a + b)"
| "fadd PInf NInf = NaN"
| "fadd NInf PInf = NaN"
| "fadd PInf _ = PInf"
| "fadd NInf _ = NInf"
| "fadd _ PInf = PInf"
| "fadd _ NInf = NInf"

definition fsub :: "fl \<Rightarrow> fl \<Rightarrow> fl" where
  "fsub a b = fadd a (fneg b)"

text \<open>The sign of an infinity times a finite factor; zero times infinity is NaN.\<close>

definition inf_signed :: "bool \<Rightarrow> fl" where
  "inf_signed positive = (if positive then PInf else NInf)"

fun fmul :: "fl \<Rightarrow> fl \<Rightarrow> fl" where
  "fmul NaN _ = NaN"
| "fmul _ NaN = NaN"
| "fmul (Fin a) (Fin b) = Fin (a * b)"
| "fmul PInf (Fin b) = (if b = 0 then NaN else inf_signed (0 < b))"
| "fmul NInf (Fin b) = (if b = 0 then NaN else inf_signed (b < 0))"
| "fmul (Fin a) PInf = (if a = 0 then NaN else inf_signed (0 < a))"
| "fmul (Fin a) NInf = (if a = 0 then NaN else inf_signed (a < 0))"
| "fmul PInf PInf = PInf"
| "fmul NInf NInf = PInf"
| "fmul PInf NInf = NInf"
| "fmul NInf PInf = NInf"

text \<open>
  Array division (numpy): a finite value over zero is an infinity, zero over zero and
  infinity over infinity are NaN; nothing is raised.
\<close>

fun fdiv :: "fl \<Rightarrow> fl \<Rightarrow> fl" where
  "fdiv NaN _ = NaN"
| "fdiv _ NaN = NaN"
| "fdiv (Fin a) (Fin b) =
     (if b = 0 then (if a = 0 then NaN else inf_signed (0 < a)) else Fin (a / b))"
| "fdiv (Fin a) PInf = Fin 0"
| "fdiv (Fin a) NInf = Fin 0"
| "fdiv PInf (Fin b) = inf_signed (0 \<le> b)"
| "fdiv NInf (Fin b) = inf_signed (b < 0)"
| "fdiv PInf _ = NaN"
| "fdiv NInf _ = NaN"

fun fsqrt :: "fl \<Rightarrow> fl" where
  "fsqrt (Fin a) = (if a < 0 then NaN else Fin (sqrt a))"
| "fsqrt PInf = PInf"
| "fsqrt NInf = NaN"
| "fsqrt NaN = NaN"

subsection \<open>Errors\<close>

text \<open>
  Every exception the module can raise is a value.  The first three are the module's own
  \<^verbatim>\<open>raise Exception(...)\<close> statements, the others are raised by the Python runtime or by
  numpy on the module's behalf.
\<close>

datatype error =
    ComSpanExclusive   \<comment> \<open>\<^verbatim>\<open>Exception("com and span are mutually exclusive")\<close>\<close>
  | ComSpanMissing     \<comment> \<open>\<^verbatim>\<open>Exception("Must pass either com or span")\<close>\<close>
  | NotSameType        \<comment> \<open>\<^verbatim>\<open>Exception('Input arrays must be of the same type!')\<close>\<close>
  | ZeroDivisionError  \<comment> \<open>division of Python floats by zero\<close>
  | TypeError          \<comment> \<open>arithmetic on \<^verbatim>\<open>None\<close>, or on containers that do not combine\<close>
  | ValueError         \<comment> \<open>shapes that do not broadcast; \<^verbatim>\<open>argmax\<close> of an empty array\<close>
  | AttributeError     \<comment> \<open>a method or attribute the operand does not have\<close>
  | KeyError           \<comment> \<open>a column the frame does not have\<close>

definition ebind :: "error + 'a \<Rightarrow> ('a \<Rightarrow> error + 'b) \<Rightarrow> error + 'b" where
  "ebind m f = (case m of Inl e \<Rightarrow> Inl e | Inr x \<Rightarrow> f x)"

fun emap :: "('a \<Rightarrow> error + 'b) \<Rightarrow> 'a list \<Rightarrow> error + 'b list" where
  "emap f [] = Inr []"
| "emap f (x # xs) =
     (case f x of Inl e \<Rightarrow> Inl e
      | Inr y \<Rightarrow> (case emap f xs of Inl e \<Rightarrow> Inl e | Inr ys \<Rightarrow> Inr (y # ys)))"

subsection \<open>Arrays and containers\<close>

text \<open>
  A raw numpy array is one- or two-dimensional; a two-dimensional array is kept as the
  list of its columns (its slices along axis 0), so an array without columns carries no
  row count.  A \<^verbatim>\<open>Series\<close> is an index and its values, a \<^verbatim>\<open>DataFrame\<close> an index and
  named columns in order.  Row labels are integers (time stamps), column names strings.
  In the version of the library this module belongs to, \<^verbatim>\<open>Series\<close> derives from
  \<^verbatim>\<open>numpy.ndarray\<close> (the module's own documentation promises
  \<^verbatim>\<open>Series / Series -> Series\<close> for the paired operations, which the dispatch on
  \<^verbatim>\<open>isinstance(arg, np.ndarray)\<close> delivers only then); \<^verbatim>\<open>DataFrame\<close> does not.
\<close>

type_synonym label = int
type_synonym colname = string
type_synonym rule = string

datatype ndarray = Arr1 "fl list" | Arr2 "fl list list"

datatype arg =
    Raw ndarray
  | Series "label list" "fl list"
  | DataFrame "label list" "(colname \<times> fl list) list"

fun is_ndarray :: "arg \<Rightarrow> bool" where
  "is_ndarray (Raw _) = True"
| "is_ndarray (Series _ _) = True"
| "is_ndarray (DataFrame _ _) = False"

fun is_DataFrame :: "arg \<Rightarrow> bool" where
  "is_DataFrame (DataFrame _ _) = True"
| "is_DataFrame _ = False"

fun is_Series :: "arg \<Rightarrow> bool" where
  "is_Series (Series _ _) = True"
| "is_Series _ = False"

text \<open>\<^verbatim>\<open>isinstance(arg2, type(arg1))\<close>: a \<^verbatim>\<open>Series\<close> is an instance of \<^verbatim>\<open>ndarray\<close>.\<close>

fun isinstance_type_of :: "arg \<Rightarrow> arg \<Rightarrow> bool" where
  "isinstance_type_of arg2 (Raw _) = is_ndarray arg2"
| "isinstance_type_of arg2 (Series _ _) = is_Series arg2"
| "isinstance_type_of arg2 (DataFrame _ _) = is_DataFrame arg2"

fun nd_len :: "ndarray \<Rightarrow> nat" where
  "nd_len (Arr1 x) = length x"
| "nd_len (Arr2 cs) = (case cs of [] \<Rightarrow> 0 | c # _ \<Rightarrow> length c)"

text \<open>Python's \<^verbatim>\<open>len\<close>: the extent along axis 0, the number of rows.\<close>

fun len :: "arg \<Rightarrow> nat" where
  "len (Raw v) = nd_len v"
| "len (Series idx v) = length v"
| "len (DataFrame idx cols) = length idx"

fun nd_map :: "(fl \<Rightarrow> fl) \<Rightarrow> ndarray \<Rightarrow> ndarray" where
  "nd_map g (Arr1 x) = Arr1 (map g x)"
| "nd_map g (Arr2 cs) = Arr2 (map (map g) cs)"

text \<open>\<^verbatim>\<open>np.apply_along_axis(f, 0, values)\<close>: \<open>f\<close> on every slice along axis 0.\<close>

fun apply_along_axis :: "(fl list \<Rightarrow> fl list) \<Rightarrow> ndarray \<Rightarrow> ndarray" where
  "apply_along_axis f (Arr1 x) = Arr1 (f x)"
| "apply_along_axis f (Arr2 cs) = Arr2 (map f cs)"

text \<open>The same when \<open>f\<close> can raise: the first exception ends the traversal.\<close>

fun apply_along_axis_err :: "(fl list \<Rightarrow> error + fl list) \<Rightarrow> ndarray \<Rightarrow> error + ndarray" where
  "apply_along_axis_err f (Arr1 x) = (case f x of Inl e \<Rightarrow> Inl e | Inr y \<Rightarrow> Inr (Arr1 y))"
| "apply_along_axis_err f (Arr2 cs) =
     (case emap f cs of Inl e \<Rightarrow> Inl e | Inr ys \<Rightarrow> Inr (Arr2 ys))"

text \<open>The columns of an array, and the one-dimensional reading of it.\<close>

fun nd_columns :: "ndarray \<Rightarrow> fl list list" where
  "nd_columns (Arr1 x) = [x]"
| "nd_columns (Arr2 cs) = cs"

fun nd_ravel :: "ndarray \<Rightarrow> fl list" where
  "nd_ravel (Arr1 x) = x"
| "nd_ravel (Arr2 cs) = concat cs"

fun index_of :: "arg \<Rightarrow> label list" where
  "index_of (Series idx vs) = idx"
| "index_of (DataFrame idx cols) = idx"
| "index_of (Raw v) = []"

text \<open>The array behind a value: a raw array is its own.\<close>

fun values_of :: "arg \<Rightarrow> ndarray" where
  "values_of (Raw v) = v"
| "values_of (Series idx vs) = Arr1 vs"
| "values_of (DataFrame idx cols) = Arr2 (map snd cols)"

subsection \<open>The collaborators the module calls\<close>

text \<open>
  The compiled kernels of \<^verbatim>\<open>pandas._tseries\<close> and the \<^verbatim>\<open>asfreq\<close> method of the
  containers are not part of the module.  They are the fields of a record that every
  operation takes as its first argument.  A rolling kernel takes the values, the window
  and the minimum number of observations.
\<close>

record extern =
  roll_max :: "fl list \<Rightarrow> int \<Rightarrow> int \<Rightarrow> fl list"
  roll_min :: "fl list \<Rightarrow> int \<Rightarrow> int \<Rightarrow> fl list"
  roll_sum :: "fl list \<Rightarrow> int \<Rightarrow> int \<Rightarrow> fl list"
  roll_mean :: "fl list \<Rightarrow> int \<Rightarrow> int \<Rightarrow> fl list"
  roll_median_cython :: "fl list \<Rightarrow> int \<Rightarrow> int \<Rightarrow> fl list"
  roll_var :: "fl list \<Rightarrow> int \<Rightarrow> int \<Rightarrow> fl list"
  roll_skew :: "fl list \<Rightarrow> int \<Rightarrow> int \<Rightarrow> fl list"
  roll_kurt :: "fl list \<Rightarrow> int \<Rightarrow> int \<Rightarrow> fl list"
  roll_quantile :: "fl list \<Rightarrow> int \<Rightarrow> int \<Rightarrow> real \<Rightarrow> fl list"
  roll_generic :: "fl list \<Rightarrow> int \<Rightarrow> int \<Rightarrow> (fl list \<Rightarrow> fl) \<Rightarrow> fl list"
  tseries_ewma :: "fl list \<Rightarrow> real \<Rightarrow> fl list"
  asfreq :: "arg \<Rightarrow> rule \<Rightarrow> arg"

subsection \<open>The single-argument path\<close>

definition conv_timerule :: "extern \<Rightarrow> arg \<Rightarrow> rule option \<Rightarrow> arg" where
  "conv_timerule E a time_rule =
     (case time_rule of
        None \<Rightarrow> a
      | Some r \<Rightarrow> (if is_DataFrame a \<or> is_Series a then asfreq E a r else a))"

definition kill_infs :: "ndarray \<Rightarrow> ndarray" where
  "kill_infs values = nd_map (\<lambda>v. if isinf v then NaN else v) values"

text \<open>
  \<^verbatim>\<open>_process_data_structure\<close> returns the hook that rebuilds the container together
  with the raw values.  The values are doubles already, so the conversion of the
  element type is the identity.
\<close>

fun process_data_structure :: "arg \<Rightarrow> bool \<Rightarrow> (ndarray \<Rightarrow> arg) \<times> ndarray" where
  "process_data_structure (DataFrame idx cols) kill_inf =
     ((\<lambda>v. DataFrame idx (zip (map fst cols) (nd_columns v))),
      (let values = values_of (DataFrame idx cols)
       in if kill_inf then kill_infs values else values))"
| "process_data_structure (Series idx vs) kill_inf =
     ((\<lambda>v. Series idx (nd_ravel v)),
      (let values = values_of (Series idx vs)
       in if kill_inf then kill_infs values else values))"
| "process_data_structure (Raw a) kill_inf =
     ((\<lambda>v. Raw v), (if kill_inf then kill_infs a else a))"

definition rolling_moment ::
  "extern \<Rightarrow> arg \<Rightarrow> int \<Rightarrow> (fl list \<Rightarrow> int \<Rightarrow> int option \<Rightarrow> fl list) \<Rightarrow> int option
     \<Rightarrow> rule option \<Rightarrow> arg" where
  "rolling_moment E a window func minp time_rule =
     (let a' = conv_timerule E a time_rule;
          calc = (\<lambda>x. func x window minp);
          (return_hook, values) = process_data_structure a' True;
          result = apply_along_axis calc values
      in return_hook result)"

definition require_min_periods :: "int \<Rightarrow> int option \<Rightarrow> int \<Rightarrow> int" where
  "require_min_periods p minp window =
     (case minp of None \<Rightarrow> window | Some m \<Rightarrow> max p m)"

definition use_window :: "int option \<Rightarrow> int \<Rightarrow> int" where
  "use_window minp window = (case minp of None \<Rightarrow> window | Some m \<Rightarrow> m)"

definition rolling_func ::
  "extern \<Rightarrow> (fl list \<Rightarrow> int \<Rightarrow> int \<Rightarrow> fl list) \<Rightarrow> (int option \<Rightarrow> int \<Rightarrow> int)
     \<Rightarrow> arg \<Rightarrow> int \<Rightarrow> int option \<Rightarrow> rule option \<Rightarrow> arg" where
  "rolling_func E func check_minp a window min_periods time_rule =
     (let call_cython = (\<lambda>x w minp. func x w (check_minp minp w))
      in rolling_moment E a window call_cython min_periods time_rule)"

definition rolling_max :: "extern \<Rightarrow> arg \<Rightarrow> int \<Rightarrow> int option \<Rightarrow> rule option \<Rightarrow> arg" where
  "rolling_max E = rolling_func E (roll_max E) use_window"

definition rolling_min :: "extern \<Rightarrow> arg \<Rightarrow> int \<Rightarrow> int option \<Rightarrow> rule option \<Rightarrow> arg" where
  "rolling_min E = rolling_func E (roll_min E) use_window"

definition rolling_sum :: "extern \<Rightarrow> arg \<Rightarrow> int \<Rightarrow> int option \<Rightarrow> rule option \<Rightarrow> arg" where
  "rolling_sum E = rolling_func E (roll_sum E) use_window"

definition rolling_mean :: "extern \<Rightarrow> arg \<Rightarrow> int \<Rightarrow> int option \<Rightarrow> rule option \<Rightarrow> arg" where
  "rolling_mean E = rolling_func E (roll_mean E) use_window"

definition rolling_median :: "extern \<Rightarrow> arg \<Rightarrow> int \<Rightarrow> int option \<Rightarrow> rule option \<Rightarrow> arg" where
  "rolling_median E = rolling_func E (roll_median_cython E) use_window"

definition ts_std :: "extern \<Rightarrow> fl list \<Rightarrow> int \<Rightarrow> int \<Rightarrow> fl list" where
  "ts_std E x w minp = map fsqrt (roll_var E x w minp)"

definition rolling_std :: "extern \<Rightarrow> arg \<Rightarrow> int \<Rightarrow> int option \<Rightarrow> rule option \<Rightarrow> arg" where
  "rolling_std E = rolling_func E (ts_std E) (require_min_periods 2)"

definition rolling_var :: "extern \<Rightarrow> arg \<Rightarrow> int \<Rightarrow> int option \<Rightarrow> rule option \<Rightarrow> arg" where
  "rolling_var E = rolling_func E (roll_var E) (require_min_periods 2)"

definition rolling_skew :: "extern \<Rightarrow> arg \<Rightarrow> int \<Rightarrow> int option \<Rightarrow> rule option \<Rightarrow> arg" where
  "rolling_skew E = rolling_func E (roll_skew E) (require_min_periods 3)"

definition rolling_kurt :: "extern \<Rightarrow> arg \<Rightarrow> int \<Rightarrow> int option \<Rightarrow> rule option \<Rightarrow> arg" where
  "rolling_kurt E = rolling_func E (roll_kurt E) (require_min_periods 4)"

definition rolling_quantile ::
  "extern \<Rightarrow> arg \<Rightarrow> int \<Rightarrow> real \<Rightarrow> int option \<Rightarrow> rule option \<Rightarrow> arg" where
  "rolling_quantile E a window quantile min_periods time_rule =
     (let call_cython = (\<lambda>x w minp. roll_quantile E x w (use_window minp w) quantile)
      in rolling_moment E a window call_cython min_periods time_rule)"

definition rolling_apply ::
  "extern \<Rightarrow> arg \<Rightarrow> int \<Rightarrow> (fl list \<Rightarrow> fl) \<Rightarrow> int option \<Rightarrow> rule option \<Rightarrow> arg" where
  "rolling_apply E a window func min_periods time_rule =
     (let call_cython = (\<lambda>x w minp. roll_generic E x w (use_window minp w) func)
      in rolling_moment E a window call_cython min_periods time_rule)"

text \<open>
  \<^verbatim>\<open>rolling_count\<close>: the finiteness mask as doubles, summed with \<^verbatim>\<open>min_periods=1\<close>;
  what is still NaN in the sum becomes 0.
\<close>

definition rolling_count :: "extern \<Rightarrow> arg \<Rightarrow> int \<Rightarrow> rule option \<Rightarrow> arg" where
  "rolling_count E a window time_rule =
     (let a' = conv_timerule E a time_rule;
          window' = min window (int (len a'));
          (return_hook, values) = process_data_structure a' False;
          converted = nd_map (\<lambda>v. if isfinite v then Fin 1 else Fin 0) values;
          result = values_of (rolling_sum E (Raw converted) window' (Some 1) time_rule)
      in return_hook (nd_map (\<lambda>v. if isnan v then Fin 0 else v) result))"

subsection \<open>Arithmetic on arrays and containers\<close>

text \<open>
  Modelled from the spec: the element-wise operators of numpy and of the containers are
  not part of the module.  Two arrays combine when their extents agree or one of them is
  1 along each axis (broadcasting), and raise otherwise.  Two \<^verbatim>\<open>Series\<close> with the same
  index combine by position, with different indices on the sorted union of the labels
  (outer join), a label absent on one side reading as missing there.  Two
  \<^verbatim>\<open>DataFrame\<close>s are aligned on rows and on columns in the same way.
\<close>

definition bcast :: "('a \<Rightarrow> 'b \<Rightarrow> error + 'c) \<Rightarrow> 'a list \<Rightarrow> 'b list \<Rightarrow> error + 'c list" where
  "bcast f a b =
     (if length a = length b then emap (\<lambda>(x, y). f x y) (zip a b)
      else if length a = 1 then emap (f (hd a)) b
      else if length b = 1 then emap (\<lambda>x. f x (hd b)) a
      else Inl ValueError)"

definition bcast1 :: "(fl \<Rightarrow> fl \<Rightarrow> fl) \<Rightarrow> fl list \<Rightarrow> fl list \<Rightarrow> error + fl list" where
  "bcast1 op a b = bcast (\<lambda>x y. Inr (op x y)) a b"

fun nd_arith :: "(fl \<Rightarrow> fl \<Rightarrow> fl) \<Rightarrow> ndarray \<Rightarrow> ndarray \<Rightarrow> error + ndarray" where
  "nd_arith op (Arr1 a) (Arr1 b) = map_sum id Arr1 (bcast1 op a b)"
| "nd_arith op (Arr2 a) (Arr2 b) = map_sum id Arr2 (bcast (bcast1 op) a b)"
| "nd_arith op (Arr1 a) (Arr2 b) = map_sum id Arr2 (bcast (bcast1 op) (map (\<lambda>v. [v]) a) b)"
| "nd_arith op (Arr2 a) (Arr1 b) = map_sum id Arr2 (bcast (bcast1 op) a (map (\<lambda>v. [v]) b))"

definition index_union :: "'a::linorder list \<Rightarrow> 'a list \<Rightarrow> 'a list" where
  "index_union i j = (if i = j then i else sort (remdups (i @ j)))"

definition reindex :: "label list \<Rightarrow> fl list \<Rightarrow> label list \<Rightarrow> fl list" where
  "reindex i v j =
     (if i = j then v
      else map (\<lambda>l. case map_of (zip i v) l of Some x \<Rightarrow> x | None \<Rightarrow> NaN) j)"

definition frame_reindex ::
  "label list \<Rightarrow> (colname \<times> fl list) list \<Rightarrow> label list \<Rightarrow> colname list
     \<Rightarrow> (colname \<times> fl list) list" where
  "frame_reindex idx cols idx' names =
     map (\<lambda>c. (c, case map_of cols c of
                     Some v \<Rightarrow> reindex idx v idx'
                   | None \<Rightarrow> replicate (length idx') NaN)) names"

text \<open>\<^verbatim>\<open>a.align(b, join='outer')\<close> of two frames: both on the union of rows and columns.\<close>

definition frame_align ::
  "label list \<Rightarrow> (colname \<times> fl list) list \<Rightarrow> label list \<Rightarrow> (colname \<times> fl list) list
     \<Rightarrow> label list \<times> colname list \<times> (colname \<times> fl list) list \<times> (colname \<times> fl list) list" where
  "frame_align i1 c1 i2 c2 =
     (let idx = index_union i1 i2;
          names = index_union (map fst c1) (map fst c2)
      in (idx, names, frame_reindex i1 c1 idx names, frame_reindex i2 c2 idx names))"

text \<open>
  A \<^verbatim>\<open>Series\<close> and a raw array combine by position and keep the index of the
  \<^verbatim>\<open>Series\<close>.  Arithmetic that mixes a \<^verbatim>\<open>DataFrame\<close> with anything else is never
  executed by the module (its type check and its dispatch exclude it) and is not
  modelled: it is the error \<open>TypeError\<close> here.
\<close>

fun arith :: "(fl \<Rightarrow> fl \<Rightarrow> fl) \<Rightarrow> arg \<Rightarrow> arg \<Rightarrow> error + arg" where
  "arith op (Raw a) (Raw b) = map_sum id Raw (nd_arith op a b)"
| "arith op (Series i a) (Series j b) =
     (if i = j then Inr (Series i (map2 op a b))
      else (let idx = index_union i j
            in Inr (Series idx (map2 op (reindex i a idx) (reindex j b idx)))))"
| "arith op (Series i a) (Raw (Arr1 b)) =
     (case bcast1 op a b of
        Inl e \<Rightarrow> Inl e
      | Inr r \<Rightarrow> (if length r = length i then Inr (Series i r) else Inl ValueError))"
| "arith op (Raw (Arr1 a)) (Series j b) =
     (case bcast1 op a b of
        Inl e \<Rightarrow> Inl e
      | Inr r \<Rightarrow> (if length r = length j then Inr (Series j r) else Inl ValueError))"
| "arith op (Series i a) (Raw (Arr2 b)) = Inl ValueError"
| "arith op (Raw (Arr2 a)) (Series j b) = Inl ValueError"
| "arith op (DataFrame i1 c1) (DataFrame i2 c2) =
     (let (idx, names, x, y) = frame_align i1 c1 i2 c2
      in Inr (DataFrame idx (map2 (\<lambda>(c, u) (c', v). (c, map2 op u v)) x y)))"
| "arith op (DataFrame i1 c1) _ = Inl TypeError"
| "arith op _ (DataFrame i2 c2) = Inl TypeError"

text \<open>An operation with a Python scalar, and element-wise functions such as \<^verbatim>\<open>np.sqrt\<close>.\<close>

fun arg_map :: "(fl \<Rightarrow> fl) \<Rightarrow> arg \<Rightarrow> arg" where
  "arg_map g (Raw a) = Raw (nd_map g a)"
| "arg_map g (Series i a) = Series i (map g a)"
| "arg_map g (DataFrame i cols) = DataFrame i (map (\<lambda>(c, v). (c, map g v)) cols)"

subsection \<open>Exponentially weighted moments\<close>

definition get_center_of_mass :: "real option \<Rightarrow> real option \<Rightarrow> error + real" where
  "get_center_of_mass com span' =
     (case span' of
        Some s \<Rightarrow> (case com of Some c \<Rightarrow> Inl ComSpanExclusive | None \<Rightarrow> Inr ((s - 1) / 2))
      | None \<Rightarrow> (case com of None \<Rightarrow> Inl ComSpanMissing | Some c \<Rightarrow> Inr c))"

text \<open>
  \<^verbatim>\<open>notnull(arr).argmax()\<close>: the position of the first value that is not NaN, 0 when
  there is none; \<^verbatim>\<open>argmax\<close> of an empty array raises.
\<close>

fun argmax_first :: "bool list \<Rightarrow> nat" where
  "argmax_first [] = 0"
| "argmax_first (b # bs) = (if b then 0 else if True \<in> set bs then Suc (argmax_first bs) else 0)"

definition first_valid_index :: "fl list \<Rightarrow> error + nat" where
  "first_valid_index arr = (if arr = [] then Inl ValueError else Inr (argmax_first (map notnull arr)))"

text \<open>
  \<^verbatim>\<open>xs[start:stop] = v\<close>: a bound below zero counts from the end, and both bounds are
  clipped to the array.
\<close>

definition slice_bound :: "nat \<Rightarrow> int \<Rightarrow> nat" where
  "slice_bound n k = (if k < 0 then nat (max 0 (int n + k)) else min n (nat k))"

definition slice_assign :: "fl list \<Rightarrow> int \<Rightarrow> int \<Rightarrow> fl \<Rightarrow> fl list" where
  "slice_assign xs start stop v =
     (let n = length xs; lo = slice_bound n start; hi = slice_bound n stop
      in map (\<lambda>i. if lo \<le> i \<and> i < hi then v else xs ! i) [0..<n])"

definition ewma_inner :: "extern \<Rightarrow> real \<Rightarrow> int \<Rightarrow> fl list \<Rightarrow> error + fl list" where
  "ewma_inner E com min_periods v =
     (let result = tseries_ewma E v com
      in case first_valid_index v of
           Inl e \<Rightarrow> Inl e
         | Inr first_index \<Rightarrow>
             Inr (slice_assign result (int first_index) (int first_index + min_periods) NaN))"

definition ewma ::
  "extern \<Rightarrow> arg \<Rightarrow> real option \<Rightarrow> real option \<Rightarrow> int \<Rightarrow> rule option \<Rightarrow> error + arg" where
  "ewma E a com span' min_periods time_rule =
     (case get_center_of_mass com span' of
        Inl e \<Rightarrow> Inl e
      | Inr c \<Rightarrow>
          (let a' = conv_timerule E a time_rule;
               (return_hook, values) = process_data_structure a' True
           in case apply_along_axis_err (ewma_inner E c min_periods) values of
                Inl e \<Rightarrow> Inl e
              | Inr output \<Rightarrow> Inr (return_hook output)))"

text \<open>
  The bias correction \<^verbatim>\<open>(1.0 + 2.0 * com) / (2.0 * com)\<close> is computed on Python floats,
  whose division by zero raises.
\<close>

definition py_float_div :: "real \<Rightarrow> real \<Rightarrow> error + real" where
  "py_float_div a b = (if b = 0 then Inl ZeroDivisionError else Inr (a / b))"

definition bias_factor :: "real \<Rightarrow> error + real" where
  "bias_factor com = py_float_div (1 + 2 * com) (2 * com)"

definition ewmvar ::
  "extern \<Rightarrow> arg \<Rightarrow> real option \<Rightarrow> real option \<Rightarrow> int \<Rightarrow> bool \<Rightarrow> rule option \<Rightarrow> error + arg" where
  "ewmvar E a com span' min_periods bias time_rule =
     ebind (get_center_of_mass com span') (\<lambda>c.
       let a' = conv_timerule E a time_rule in
       ebind (arith fmul a' a') (\<lambda>sq.
       ebind (ewma E sq (Some c) None min_periods None) (\<lambda>moment2nd.
       ebind (ewma E a' (Some c) None min_periods None) (\<lambda>moment1st.
       ebind (arith fsub moment2nd (arg_map (\<lambda>v. fmul v v) moment1st)) (\<lambda>result.
         if \<not> bias
         then ebind (bias_factor c) (\<lambda>k. Inr (arg_map (\<lambda>v. fmul v (Fin k)) result))
         else Inr result)))))"

definition ewmstd ::
  "extern \<Rightarrow> arg \<Rightarrow> real option \<Rightarrow> real option \<Rightarrow> int \<Rightarrow> bool \<Rightarrow> rule option \<Rightarrow> error + arg" where
  "ewmstd E a com span' min_periods bias time_rule =
     ebind (ewmvar E a com span' min_periods bias time_rule) (\<lambda>result.
       Inr (arg_map fsqrt result))"

definition ewmvol ::
  "extern \<Rightarrow> arg \<Rightarrow> real option \<Rightarrow> real option \<Rightarrow> int \<Rightarrow> bool \<Rightarrow> rule option \<Rightarrow> error + arg" where
  "ewmvol = ewmstd"

text \<open>
  \<^verbatim>\<open>_prep_binary\<close>: the type check, then each side plus zero times the other.
\<close>

definition prep_binary :: "arg \<Rightarrow> arg \<Rightarrow> error + arg \<times> arg" where
  "prep_binary arg1 arg2 =
     (if \<not> isinstance_type_of arg2 arg1 then Inl NotSameType
      else
        ebind (arith fadd arg1 (arg_map (fmul (Fin 0)) arg2)) (\<lambda>X.
        ebind (arith fadd arg2 (arg_map (fmul (Fin 0)) arg1)) (\<lambda>Y.
          Inr (X, Y))))"

text \<open>
  In \<^verbatim>\<open>ewmcov\<close> the bias correction uses the parameter \<^verbatim>\<open>com\<close> as the caller passed it:
  \<^verbatim>\<open>2.0 * None\<close> raises when only \<^verbatim>\<open>span\<close> was given.
\<close>

definition bias_factor_opt :: "real option \<Rightarrow> error + real" where
  "bias_factor_opt com = (case com of None \<Rightarrow> Inl TypeError | Some c \<Rightarrow> bias_factor c)"

definition ewmcov ::
  "extern \<Rightarrow> arg \<Rightarrow> arg \<Rightarrow> real option \<Rightarrow> real option \<Rightarrow> int \<Rightarrow> bool \<Rightarrow> rule option
     \<Rightarrow> error + arg" where
  "ewmcov E arg1 arg2 com span' min_periods bias time_rule =
     ebind (prep_binary arg1 arg2) (\<lambda>(X0, Y0).
       let X = conv_timerule E X0 time_rule;
           Y = conv_timerule E Y0 time_rule;
           mean = (\<lambda>x. ewma E x com span' min_periods None) in
       ebind (arith fmul X Y) (\<lambda>XY.
       ebind (mean XY) (\<lambda>mXY.
       ebind (mean X) (\<lambda>mX.
       ebind (mean Y) (\<lambda>mY.
       ebind (arith fmul mX mY) (\<lambda>mXmY.
       ebind (arith fsub mXY mXmY) (\<lambda>result.
         if \<not> bias
         then ebind (bias_factor_opt com) (\<lambda>k. Inr (arg_map (\<lambda>v. fmul v (Fin k)) result))
         else Inr result)))))))"

definition ewmcorr ::
  "extern \<Rightarrow> arg \<Rightarrow> arg \<Rightarrow> real option \<Rightarrow> real option \<Rightarrow> int \<Rightarrow> rule option \<Rightarrow> error + arg" where
  "ewmcorr E arg1 arg2 com span' min_periods time_rule =
     ebind (prep_binary arg1 arg2) (\<lambda>(X0, Y0).
       let X = conv_timerule E X0 time_rule;
           Y = conv_timerule E Y0 time_rule;
           mean = (\<lambda>x. ewma E x com span' min_periods None);
           var = (\<lambda>x. ewmvar E x com span' min_periods True None) in
       ebind (arith fmul X Y) (\<lambda>XY.
       ebind (mean XY) (\<lambda>mXY.
       ebind (mean X) (\<lambda>mX.
       ebind (mean Y) (\<lambda>mY.
       ebind (arith fmul mX mY) (\<lambda>mXmY.
       ebind (arith fsub mXY mXmY) (\<lambda>num.
       ebind (var X) (\<lambda>vX.
       ebind (var Y) (\<lambda>vY.
       ebind (arith fmul vX vY) (\<lambda>vXvY.
         arith fdiv num (arg_map fsqrt vXvY)))))))))))"

subsection \<open>Paired rolling moments\<close>

text \<open>
  \<^verbatim>\<open>X[col]\<close> of a frame is the column as a \<^verbatim>\<open>Series\<close> on the frame's index; a name
  that is not a column raises.  Only a frame has columns.
\<close>

fun column :: "arg \<Rightarrow> colname \<Rightarrow> error + arg" where
  "column (DataFrame idx cols) c =
     (case map_of cols c of None \<Rightarrow> Inl KeyError | Some v \<Rightarrow> Inr (Series idx v))"
| "column _ c = Inl AttributeError"

fun has_column :: "arg \<Rightarrow> colname \<Rightarrow> bool" where
  "has_column (DataFrame idx cols) c = (c \<in> fst ` set cols)"
| "has_column _ c = False"

text \<open>
  Modelled from the spec: \<^verbatim>\<open>DataFrame(results, index=idx, columns=names)\<close> builds the
  frame from a dictionary of columns.  A \<^verbatim>\<open>Series\<close> is conformed to the index, a raw
  one-dimensional array must have its length, and a name without an entry is a column
  of missing values.
\<close>

fun column_values :: "label list \<Rightarrow> arg \<Rightarrow> error + fl list" where
  "column_values idx (Series j v) = Inr (reindex j v idx)"
| "column_values idx (Raw (Arr1 v)) = (if length v = length idx then Inr v else Inl ValueError)"
| "column_values idx _ = Inl ValueError"

definition frame_from_dict ::
  "(colname \<rightharpoonup> arg) \<Rightarrow> label list \<Rightarrow> colname list \<Rightarrow> error + arg" where
  "frame_from_dict results idx names =
     ebind (emap (\<lambda>c. case results c of
                        None \<Rightarrow> Inr (c, replicate (length idx) NaN)
                      | Some r \<Rightarrow> map_sum id (Pair c) (column_values idx r)) names)
       (\<lambda>cols. Inr (DataFrame idx cols))"

text \<open>The loop that fills \<^verbatim>\<open>results\<close>: one call of \<open>g\<close> per column, in order.\<close>

fun fill_results ::
  "(colname \<Rightarrow> error + arg option) \<Rightarrow> colname list \<Rightarrow> (colname \<rightharpoonup> arg)
     \<Rightarrow> error + (colname \<rightharpoonup> arg)" where
  "fill_results g [] results = Inr results"
| "fill_results g (col # cols) results =
     (case g col of
        Inl e \<Rightarrow> Inl e
      | Inr None \<Rightarrow> fill_results g cols results
      | Inr (Some r) \<Rightarrow> fill_results g cols (results(col \<mapsto> r)))"

function flex_binary_moment ::
  "arg \<Rightarrow> arg \<Rightarrow> (arg \<Rightarrow> arg \<Rightarrow> error + arg) \<Rightarrow> error + arg" where
  "flex_binary_moment arg1 arg2 f =
     (if is_ndarray arg1 \<and> is_ndarray arg2 then
        ebind (prep_binary arg1 arg2) (\<lambda>(X, Y). f X Y)
      else if is_DataFrame arg1 then
        (case arg1 of
           DataFrame i1 c1 \<Rightarrow>
             (case arg2 of
                DataFrame i2 c2 \<Rightarrow>
                  (let (idx, names, x, y) = frame_align i1 c1 i2 c2;
                       X0 = DataFrame idx x;
                       Y0 = DataFrame idx y in
                   ebind (arith fadd X0 (arg_map (fmul (Fin 0)) Y0)) (\<lambda>X.
                   ebind (arith fadd Y0 (arg_map (fmul (Fin 0)) X)) (\<lambda>Y.
                     let res_columns = index_union (map fst c1) (map fst c2) in
                     ebind (fill_results
                              (\<lambda>col. if has_column X col \<and> has_column Y col
                                     then ebind (column X col) (\<lambda>xc.
                                          ebind (column Y col) (\<lambda>yc.
                                          ebind (f xc yc) (\<lambda>r. Inr (Some r))))
                                     else Inr None)
                              res_columns Map.empty) (\<lambda>results.
                       frame_from_dict results (index_of X) res_columns))))
              | Series i2 v2 \<Rightarrow>
                  (let res_columns = map fst c1;
                       idx = index_union i1 i2;
                       X = DataFrame idx (frame_reindex i1 c1 idx (map fst c1));
                       Y = Series idx (reindex i2 v2 idx) in
                   ebind (fill_results
                            (\<lambda>col. ebind (column X col) (\<lambda>xc.
                                   ebind (f xc Y) (\<lambda>r. Inr (Some r))))
                            res_columns Map.empty) (\<lambda>results.
                     frame_from_dict results (index_of X) res_columns))
              | Raw v2 \<Rightarrow> Inl TypeError)
         | _ \<Rightarrow> Inl TypeError)
      else flex_binary_moment arg2 arg1 f)"
  by pat_completeness auto
termination
proof (relation "measure (\<lambda>(arg1, arg2, f). if is_DataFrame arg1 then 0 else 1)")
  show "wf (measure (\<lambda>(arg1, arg2, f). if is_DataFrame arg1 then (0::nat) else 1))"
    by simp
next
  fix arg1 arg2 :: arg and f :: "arg \<Rightarrow> arg \<Rightarrow> error + arg"
  assume "\<not> (is_ndarray arg1 \<and> is_ndarray arg2)" and "\<not> is_DataFrame arg1"
  then show "((arg2, arg1, f), (arg1, arg2, f))
      \<in> measure (\<lambda>(arg1, arg2, f). if is_DataFrame arg1 then (0::nat) else 1)"
    by (cases arg1; cases arg2) simp_all
qed

declare flex_binary_moment.simps [simp del]

definition get_cov ::
  "extern \<Rightarrow> int \<Rightarrow> int option \<Rightarrow> rule option \<Rightarrow> arg \<Rightarrow> arg \<Rightarrow> error + arg" where
  "get_cov E window min_periods time_rule X Y =
     (let mean = (\<lambda>x. rolling_mean E x window min_periods time_rule) in
      ebind (arith fadd X Y) (\<lambda>XpY.
        let count = rolling_count E XpY window time_rule in
        ebind (arith fdiv count (arg_map (\<lambda>v. fsub v (Fin 1)) count)) (\<lambda>bias_adj.
        ebind (arith fmul X Y) (\<lambda>XY.
        ebind (arith fmul (mean X) (mean Y)) (\<lambda>mXmY.
        ebind (arith fsub (mean XY) mXmY) (\<lambda>d.
          arith fmul d bias_adj))))))"

definition rolling_cov ::
  "extern \<Rightarrow> arg \<Rightarrow> arg \<Rightarrow> int \<Rightarrow> int option \<Rightarrow> rule option \<Rightarrow> error + arg" where
  "rolling_cov E arg1 arg2 window min_periods time_rule =
     flex_binary_moment arg1 arg2 (get_cov E window min_periods time_rule)"

definition get_corr ::
  "extern \<Rightarrow> int \<Rightarrow> int option \<Rightarrow> rule option \<Rightarrow> arg \<Rightarrow> arg \<Rightarrow> error + arg" where
  "get_corr E window min_periods time_rule a b =
     ebind (rolling_cov E a b window min_periods time_rule) (\<lambda>num.
     ebind (arith fmul (rolling_std E a window min_periods time_rule)
                       (rolling_std E b window min_periods time_rule)) (\<lambda>den.
       arith fdiv num den))"

definition rolling_corr ::
  "extern \<Rightarrow> arg \<Rightarrow> arg \<Rightarrow> int \<Rightarrow> int option \<Rightarrow> rule option \<Rightarrow> error + arg" where
  "rolling_corr E arg1 arg2 window min_periods time_rule =
     flex_binary_moment arg1 arg2 (get_corr E window min_periods time_rule)"

subsection \<open>Pairwise correlation\<close>

text \<open>
  \<^verbatim>\<open>all_results\<close> is a dictionary of dictionaries (a \<^verbatim>\<open>defaultdict(dict)\<close>): storing
  under a first key that is new creates its inner dictionary.
\<close>

type_synonym results2 = "colname \<rightharpoonup> (colname \<rightharpoonup> arg)"

definition store2 :: "results2 \<Rightarrow> colname \<Rightarrow> colname \<Rightarrow> arg \<Rightarrow> results2" where
  "store2 m k1 k2 v = m(k1 \<mapsto> (case m k1 of None \<Rightarrow> Map.empty | Some d \<Rightarrow> d)(k2 \<mapsto> v))"

definition lookup2 :: "results2 \<Rightarrow> colname \<Rightarrow> colname \<Rightarrow> arg option" where
  "lookup2 m k1 k2 = (case m k1 of None \<Rightarrow> None | Some d \<Rightarrow> d k2)"

text \<open>The inner loop, \<^verbatim>\<open>for k2 in df.columns[i:]\<close>, and the outer one over \<^verbatim>\<open>k1\<close>.\<close>

fun pairwise_inner ::
  "extern \<Rightarrow> arg \<Rightarrow> int \<Rightarrow> int option \<Rightarrow> colname \<Rightarrow> colname list \<Rightarrow> results2
     \<Rightarrow> error + results2" where
  "pairwise_inner E df window min_periods k1 [] all_results = Inr all_results"
| "pairwise_inner E df window min_periods k1 (k2 # ks) all_results =
     ebind (column df k1) (\<lambda>s1.
     ebind (column df k2) (\<lambda>s2.
     ebind (rolling_corr E s1 s2 window min_periods None) (\<lambda>corr.
       pairwise_inner E df window min_periods k1 ks
         (store2 (store2 all_results k1 k2 corr) k2 k1 corr))))"

fun pairwise_outer ::
  "extern \<Rightarrow> arg \<Rightarrow> int \<Rightarrow> int option \<Rightarrow> colname list \<Rightarrow> results2 \<Rightarrow> error + results2" where
  "pairwise_outer E df window min_periods [] all_results = Inr all_results"
| "pairwise_outer E df window min_periods (k1 # ks) all_results =
     ebind (pairwise_inner E df window min_periods k1 (k1 # ks) all_results) (\<lambda>r.
       pairwise_outer E df window min_periods ks r)"

text \<open>
  Modelled from the spec: \<^verbatim>\<open>Panel.from_dict(all_results).swapaxes('items', 'major')\<close> is
  the three-axis structure indexed by (time, column, column) whose entry at
  \<open>(t, c\<^sub>1, c\<^sub>2)\<close> is the value at \<open>t\<close> of \<^verbatim>\<open>all_results[c1][c2]\<close>.  An entry that does
  not exist is \<open>None\<close>.
\<close>

fun value_at :: "arg \<Rightarrow> label \<Rightarrow> fl option" where
  "value_at (Series idx v) t = map_of (zip idx v) t"
| "value_at _ t = None"

type_synonym panel = "label \<Rightarrow> colname \<Rightarrow> colname \<Rightarrow> fl option"

definition panel_from_dict_swapaxes :: "results2 \<Rightarrow> panel" where
  "panel_from_dict_swapaxes all_results =
     (\<lambda>t c1 c2. case lookup2 all_results c1 c2 of None \<Rightarrow> None | Some s \<Rightarrow> value_at s t)"

fun columns_of :: "arg \<Rightarrow> error + colname list" where
  "columns_of (DataFrame idx cols) = Inr (map fst cols)"
| "columns_of _ = Inl AttributeError"

definition pairwise_results :: "extern \<Rightarrow> arg \<Rightarrow> int \<Rightarrow> int option \<Rightarrow> error + results2" where
  "pairwise_results E df window min_periods =
     ebind (columns_of df) (\<lambda>columns.
       pairwise_outer E df window min_periods columns Map.empty)"

definition rolling_corr_pairwise :: "extern \<Rightarrow> arg \<Rightarrow> int \<Rightarrow> int option \<Rightarrow> error + panel" where
  "rolling_corr_pairwise E df window min_periods =
     ebind (pairwise_results E df window min_periods) (\<lambda>all_results.
       Inr (panel_from_dict_swapaxes all_results))"

text \<open>
  The body of the inner loop: the correlation of the columns named \<open>k1\<close> and \<open>k2\<close>,
  \<^verbatim>\<open>rolling_corr(df[k1], df[k2], window, min_periods=min_periods)\<close>.
\<close>

definition corr_of_columns ::
  "extern \<Rightarrow> arg \<Rightarrow> int \<Rightarrow> int option \<Rightarrow> colname \<Rightarrow> colname \<Rightarrow> error + arg" where
  "corr_of_columns E df window min_periods k1 k2 =
     ebind (column df k1) (\<lambda>s1.
     ebind (column df k2) (\<lambda>s2.
       rolling_corr E s1 s2 window min_periods None))"

subsection \<open>Shapes\<close>

text \<open>
  What the output of a single-argument operation has to share with its input: the
  length of a raw array (of each column of a two-dimensional one), the index and the
  length of a \<^verbatim>\<open>Series\<close>, the index, the column names and the column lengths of a
  frame.
\<close>

datatype shape =
    RawShape1 nat
  | RawShape2 "nat list"
  | SeriesShape "label list" nat
  | FrameShape "label list" "colname list" "nat list"

fun shape_of :: "arg \<Rightarrow> shape" where
  "shape_of (Raw (Arr1 x)) = RawShape1 (length x)"
| "shape_of (Raw (Arr2 cs)) = RawShape2 (map length cs)"
| "shape_of (Series idx v) = SeriesShape idx (length v)"
| "shape_of (DataFrame idx cols) = FrameShape idx (map fst cols) (map (\<lambda>c. length (snd c)) cols)"

text \<open>The columns of a table have unique names.\<close>

fun unique_columns :: "arg \<Rightarrow> bool" where
  "unique_columns (DataFrame idx cols) = distinct (map fst cols)"
| "unique_columns _ = True"

text \<open>
  The contract of the kernels the shape of the output rests on: the output of a kernel
  has the length of its input.
\<close>

definition kernels_keep_length :: "extern \<Rightarrow> bool" where
  "kernels_keep_length E =
     ((\<forall>x w p. length (roll_max E x w p) = length x)
    \<and> (\<forall>x w p. length (roll_min E x w p) = length x)
    \<and> (\<forall>x w p. length (roll_sum E x w p) = length x)
    \<and> (\<forall>x w p. length (roll_mean E x w p) = length x)
    \<and> (\<forall>x w p. length (roll_median_cython E x w p) = length x)
    \<and> (\<forall>x w p. length (roll_var E x w p) = length x)
    \<and> (\<forall>x w p. length (roll_skew E x w p) = length x)
    \<and> (\<forall>x w p. length (roll_kurt E x w p) = length x)
    \<and> (\<forall>x w p q. length (roll_quantile E x w p q) = length x)
    \<and> (\<forall>x w p g. length (roll_generic E x w p g) = length x)
    \<and> (\<forall>x c. length (tseries_ewma E x c) = length x))"

subsection \<open>The kernels as the specification describes them\<close>

text \<open>
  Modelled from the spec: the kernels of \<^verbatim>\<open>pandas._tseries\<close> are compiled code outside
  the module.  The specification gives their contract: the output has the length of the
  input; the value at \<open>i\<close> is the statistic of the valid observations in the trailing
  window \<open>[max(0, i - W + 1), i]\<close>, and is missing when there are fewer than
  \<open>min_periods\<close> of them.  The dispatcher replaces infinities by NaN before a kernel
  runs, so a valid observation is a finite one.  These definitions instantiate the
  record \<^typ>\<open>extern\<close> where a concrete kernel is needed.
\<close>

definition window_at :: "fl list \<Rightarrow> int \<Rightarrow> nat \<Rightarrow> fl list" where
  "window_at x w i = (let lo = nat (int i + 1 - w) in take (Suc i - lo) (drop lo x))"

fun finite_vals :: "fl list \<Rightarrow> real list" where
  "finite_vals [] = []"
| "finite_vals (Fin r # vs) = r # finite_vals vs"
| "finite_vals (_ # vs) = finite_vals vs"

definition spec_roll :: "(real list \<Rightarrow> fl) \<Rightarrow> fl list \<Rightarrow> int \<Rightarrow> int \<Rightarrow> fl list" where
  "spec_roll stat x w minp =
     map (\<lambda>i. let valid = finite_vals (window_at x w i)
              in if int (length valid) < minp then NaN else stat valid) [0..<length x]"

definition stat_sum :: "real list \<Rightarrow> fl" where
  "stat_sum rs = Fin (sum_list rs)"

definition stat_mean :: "real list \<Rightarrow> fl" where
  "stat_mean rs = (if rs = [] then NaN else Fin (sum_list rs / real (length rs)))"

definition stat_var :: "real list \<Rightarrow> fl" where
  "stat_var rs =
     (let c = real (length rs)
      in if length rs < 2 then NaN
         else Fin ((sum_list (map (\<lambda>r. r * r) rs) - (sum_list rs) * (sum_list rs) / c) / (c - 1)))"

definition stat_max :: "real list \<Rightarrow> fl" where
  "stat_max rs = (case rs of [] \<Rightarrow> NaN | r # rs' \<Rightarrow> Fin (fold max rs' r))"

definition stat_min :: "real list \<Rightarrow> fl" where
  "stat_min rs = (case rs of [] \<Rightarrow> NaN | r # rs' \<Rightarrow> Fin (fold min rs' r))"

text \<open>Linear interpolation between the two order statistics around \<open>q * (c - 1)\<close>.\<close>

definition stat_quantile :: "real \<Rightarrow> real list \<Rightarrow> fl" where
  "stat_quantile q rs =
     (if rs = [] then NaN
      else (let s = sort rs;
                rank = q * (real (length rs) - 1);
                lo = nat \<lfloor>rank\<rfloor>;
                hi = nat \<lceil>rank\<rceil>
            in Fin (s ! lo + (rank - real lo) * (s ! hi - s ! lo))))"

definition central_moment :: "nat \<Rightarrow> real list \<Rightarrow> real" where
  "central_moment k rs =
     (let c = real (length rs); m = sum_list rs / c
      in sum_list (map (\<lambda>r. (r - m) ^ k) rs) / c)"

definition stat_skew :: "real list \<Rightarrow> fl" where
  "stat_skew rs =
     (let c = real (length rs); m2 = central_moment 2 rs; m3 = central_moment 3 rs
      in if length rs < 3 \<or> m2 = 0 then NaN
         else Fin (sqrt (c * (c - 1)) / (c - 2) * m3 / (m2 * sqrt m2)))"

definition stat_kurt :: "real list \<Rightarrow> fl" where
  "stat_kurt rs =
     (let c = real (length rs); m2 = central_moment 2 rs; m4 = central_moment 4 rs
      in if length rs < 4 \<or> m2 = 0 then NaN
         else Fin ((c - 1) / ((c - 2) * (c - 3)) * ((c + 1) * m4 / (m2 * m2) - 3 * (c - 1))))"

text \<open>The generic applier hands the whole slice, missing values included, to the reducer.\<close>

definition spec_roll_generic :: "fl list \<Rightarrow> int \<Rightarrow> int \<Rightarrow> (fl list \<Rightarrow> fl) \<Rightarrow> fl list" where
  "spec_roll_generic x w minp f =
     map (\<lambda>i. let slice = window_at x w i
              in if int (length (finite_vals slice)) < minp then NaN else f slice) [0..<length x]"

text \<open>
  The recursion of the exponentially weighted mean, with \<open>\<alpha> = 1 / (1 + com)\<close>: missing
  before the first valid input, that input at its position, then
  \<open>(1 - \<alpha>) * y + \<alpha> * x\<close> at a valid input and the previous output at a missing one.
\<close>

fun spec_ewma_from :: "fl \<Rightarrow> fl option \<Rightarrow> fl list \<Rightarrow> fl list" where
  "spec_ewma_from alpha prev [] = []"
| "spec_ewma_from alpha None (x # xs) =
     (if isnan x then NaN # spec_ewma_from alpha None xs
      else x # spec_ewma_from alpha (Some x) xs)"
| "spec_ewma_from alpha (Some y) (x # xs) =
     (if isnan x then y # spec_ewma_from alpha (Some y) xs
      else (let y' = fadd (fmul (fsub (Fin 1) alpha) y) (fmul alpha x)
            in y' # spec_ewma_from alpha (Some y') xs))"

definition spec_ewma :: "fl list \<Rightarrow> real \<Rightarrow> fl list" where
  "spec_ewma x com = spec_ewma_from (fdiv (Fin 1) (Fin (1 + com))) None x"

text \<open>
  The record of the kernels of the specification.  Its \<open>asfreq\<close> leaves the input as it
  is: an input that already conforms to the rule.
\<close>

definition spec_extern :: extern where
  "spec_extern =
     \<lparr> roll_max = spec_roll stat_max,
       roll_min = spec_roll stat_min,
       roll_sum = spec_roll stat_sum,
       roll_mean = spec_roll stat_mean,
       roll_median_cython = spec_roll (stat_quantile (1 / 2)),
       roll_var = spec_roll stat_var,
       roll_skew = spec_roll stat_skew,
       roll_kurt = spec_roll stat_kurt,
       roll_quantile = (\<lambda>x w minp q. spec_roll (stat_quantile q) x w minp),
       roll_generic = spec_roll_generic,
       tseries_ewma = spec_ewma,
       asfreq = (\<lambda>a r. a) \<rparr>"

text \<open>
  A kernel that answers with the \<open>min_periods\<close> it was called with, at every position:
  it makes the argument a rolling operation passes to its kernel visible in the result.
\<close>

definition minp_probe :: "fl list \<Rightarrow> int \<Rightarrow> int \<Rightarrow> fl list" where
  "minp_probe x w minp = map (\<lambda>v. Fin (real_of_int minp)) x"

text \<open>
  The count the specification asks of \<open>rolling_count\<close>: at every position the number of
  finite values in the trailing window.
\<close>

definition count_finite :: "fl list \<Rightarrow> int \<Rightarrow> fl list" where
  "count_finite x w =
     map (\<lambda>i. Fin (real (length (filter isfinite (window_at x w i))))) [0..<length x]"

subsection \<open>The exponentially weighted correlation as the specification writes it\<close>

text \<open>
  The specification gives \<open>ewmcorr(x, y)\<close> as
  \<open>ewmcov(x, y) / sqrt(ewmvar(x, bias=true) * ewmvar(y, bias=true))\<close>, on the operands
  as the caller passed them.  This is that quotient, built from the operations of the
  module; \<open>bias\<close> is the flag handed to \<open>ewmcov\<close>, which the specification leaves at its
  default \<open>False\<close>.
\<close>

definition ewmcorr_formula ::
  "extern \<Rightarrow> bool \<Rightarrow> arg \<Rightarrow> arg \<Rightarrow> real option \<Rightarrow> real option \<Rightarrow> int \<Rightarrow> rule option
     \<Rightarrow> error + arg" where
  "ewmcorr_formula E bias x y com span' min_periods time_rule =
     ebind (ewmcov E x y com span' min_periods bias time_rule) (\<lambda>cov.
     ebind (ewmvar E x com span' min_periods True time_rule) (\<lambda>vx.
     ebind (ewmvar E y com span' min_periods True time_rule) (\<lambda>vy.
     ebind (arith fmul vx vy) (\<lambda>p.
       arith fdiv cov (arg_map fsqrt p)))))"

section \<open>Properties\<close>

subsection \<open>Basic facts\<close>

lemma ebind_Inl [simp]: "ebind (Inl e) f = Inl e"
  by (simp add: ebind_def)

lemma ebind_Inr [simp]: "ebind (Inr x) f = f x"
  by (simp add: ebind_def)

lemma emap_Inr: "emap (\<lambda>x. Inr (g x)) xs = Inr (map g xs)"
  by (induction xs) simp_all

lemma emap_Inr_prod: "emap (\<lambda>(x, y). Inr (g x y)) zs = Inr (map (\<lambda>(x, y). g x y) zs)"
  using emap_Inr[of "\<lambda>(x, y). g x y" zs] by (simp add: case_prod_unfold)

lemma bcast1_same_length:
  "length a = length b \<Longrightarrow> bcast1 op a b = Inr (map2 op a b)"
  by (simp add: bcast1_def bcast_def emap_Inr_prod)

lemma length_slice_assign [simp]: "length (slice_assign xs a b v) = length xs"
  by (simp add: slice_assign_def Let_def)

text \<open>
  With a \<open>min_periods\<close> that is not negative, the slice assignment of \<open>ewma\<close> overwrites
  the positions \<open>first, \<dots>, first + min_periods - 1\<close> that exist, and no other.
\<close>

lemma slice_assign_nth:
  "0 \<le> mp \<Longrightarrow> i < length xs \<Longrightarrow>
   slice_assign xs (int fi) (int fi + mp) v ! i
     = (if fi \<le> i \<and> int i < int fi + mp then v else xs ! i)"
  by (auto simp add: slice_assign_def slice_bound_def Let_def)

lemmas ewma_eval_defs = ewma_def get_center_of_mass_def conv_timerule_def kill_infs_def
  ewma_inner_def first_valid_index_def slice_assign_def slice_bound_def
  spec_extern_def spec_ewma_def notnull_def

subsection \<open>Minimum number of observations of the rolling statistics\<close>

text \<open>
  Claim C3 as the specification states it: with \<open>min_periods\<close> unset, \<open>rolling_var\<close>
  enforces at least two observations for every window.  It does not: with window 1
  and \<open>min_periods\<close> unset the variance kernel is called with \<open>min_periods = 1\<close>.
\<close>

theorem C3_unset_floor_counterexample:
  "rolling_var (spec_extern\<lparr>roll_var := minp_probe\<rparr>) (Raw (Arr1 [Fin 7])) 1 None None
     = Raw (Arr1 [Fin 1])"
  by (simp add: rolling_var_def rolling_func_def rolling_moment_def conv_timerule_def
      require_min_periods_def kill_infs_def minp_probe_def)

text \<open>
  Claim C3, amended: with \<open>min_periods\<close> unset every rolling statistic calls its kernel
  with the window as the minimum number of observations, variance, standard deviation,
  skewness and kurtosis included; the floors 2, 2, 3 and 4 apply when \<open>min_periods\<close>
  is set to \<open>m\<close>, as \<open>max floor m\<close>, and the other statistics then use \<open>m\<close> itself.
\<close>

theorem C3_effective_min_periods:
  "rolling_var E a w None tr = rolling_moment E a w (\<lambda>x w' minp. roll_var E x w' w') None tr
   \<and> rolling_std E a w None tr = rolling_moment E a w (\<lambda>x w' minp. ts_std E x w' w') None tr
   \<and> rolling_skew E a w None tr = rolling_moment E a w (\<lambda>x w' minp. roll_skew E x w' w') None tr
   \<and> rolling_kurt E a w None tr = rolling_moment E a w (\<lambda>x w' minp. roll_kurt E x w' w') None tr
   \<and> rolling_var E a w (Some m) tr
       = rolling_moment E a w (\<lambda>x w' minp. roll_var E x w' (max 2 m)) (Some m) tr
   \<and> rolling_std E a w (Some m) tr
       = rolling_moment E a w (\<lambda>x w' minp. ts_std E x w' (max 2 m)) (Some m) tr
   \<and> rolling_skew E a w (Some m) tr
       = rolling_moment E a w (\<lambda>x w' minp. roll_skew E x w' (max 3 m)) (Some m) tr
   \<and> rolling_kurt E a w (Some m) tr
       = rolling_moment E a w (\<lambda>x w' minp. roll_kurt E x w' (max 4 m)) (Some m) tr
   \<and> rolling_sum E a w None tr = rolling_moment E a w (\<lambda>x w' minp. roll_sum E x w' w') None tr
   \<and> rolling_mean E a w None tr = rolling_moment E a w (\<lambda>x w' minp. roll_mean E x w' w') None tr
   \<and> rolling_max E a w None tr = rolling_moment E a w (\<lambda>x w' minp. roll_max E x w' w') None tr
   \<and> rolling_min E a w None tr = rolling_moment E a w (\<lambda>x w' minp. roll_min E x w' w') None tr
   \<and> rolling_median E a w None tr
       = rolling_moment E a w (\<lambda>x w' minp. roll_median_cython E x w' w') None tr
   \<and> rolling_quantile E a w q None tr
       = rolling_moment E a w (\<lambda>x w' minp. roll_quantile E x w' w' q) None tr
   \<and> rolling_apply E a w g None tr
       = rolling_moment E a w (\<lambda>x w' minp. roll_generic E x w' w' g) None tr
   \<and> rolling_sum E a w (Some m) tr
       = rolling_moment E a w (\<lambda>x w' minp. roll_sum E x w' m) (Some m) tr
   \<and> rolling_mean E a w (Some m) tr
       = rolling_moment E a w (\<lambda>x w' minp. roll_mean E x w' m) (Some m) tr
   \<and> rolling_max E a w (Some m) tr
       = rolling_moment E a w (\<lambda>x w' minp. roll_max E x w' m) (Some m) tr
   \<and> rolling_min E a w (Some m) tr
       = rolling_moment E a w (\<lambda>x w' minp. roll_min E x w' m) (Some m) tr
   \<and> rolling_median E a w (Some m) tr
       = rolling_moment E a w (\<lambda>x w' minp. roll_median_cython E x w' m) (Some m) tr
   \<and> rolling_quantile E a w q (Some m) tr
       = rolling_moment E a w (\<lambda>x w' minp. roll_quantile E x w' m q) (Some m) tr
   \<and> rolling_apply E a w g (Some m) tr
       = rolling_moment E a w (\<lambda>x w' minp. roll_generic E x w' m g) (Some m) tr"
  by (simp add: rolling_var_def rolling_std_def rolling_skew_def rolling_kurt_def
      rolling_sum_def rolling_mean_def rolling_max_def rolling_min_def rolling_median_def
      rolling_quantile_def rolling_apply_def rolling_func_def rolling_moment_def
      require_min_periods_def use_window_def Let_def split: prod.splits)

subsection \<open>The alias \<open>ewmvol\<close>\<close>

text \<open>
  Claim C10: \<open>ewmvol\<close> is \<open>ewmstd\<close>: the two return the same result for every input and
  every combination of \<open>com\<close>, \<open>span\<close>, \<open>min_periods\<close>, \<open>bias\<close> and \<open>time_rule\<close>.
\<close>

theorem C10_ewmvol_is_ewmstd:
  "ewmvol E a com span' min_periods bias time_rule
     = ewmstd E a com span' min_periods bias time_rule"
  by (simp add: ewmvol_def)

subsection \<open>The warm-up gate of \<open>ewma\<close>\<close>

text \<open>
  What \<open>ewma\<close> does to a column, for any kernel that keeps the length: the positions
  \<open>first, \<dots>, first + min_periods - 1\<close> are missing, \<open>min_periods\<close> of them when the
  column is long enough, and every other position is the kernel's value.
\<close>

lemma ewma_inner_masks:
  assumes "length (tseries_ewma E v c) = length v" "v \<noteq> []" "0 \<le> mp" "i < length v"
  shows "\<exists>y. ewma_inner E c mp v = Inr y
           \<and> y ! i = (if argmax_first (map notnull v) \<le> i
                          \<and> int i < int (argmax_first (map notnull v)) + mp
                       then NaN else tseries_ewma E v c ! i)"
  using assms by (simp add: ewma_inner_def first_valid_index_def Let_def slice_assign_nth)

text \<open>
  Claim C1 says that \<open>ewma\<close> forces the first \<open>min_periods - 1\<close> outputs from the first
  valid position to missing, so that with \<open>min_periods = 1\<close> the output at the first
  valid position is the input there.  The code assigns NaN to the slice
  \<^verbatim>\<open>[first_index : first_index + min_periods]\<close>, which has \<open>min_periods\<close> positions: on
  the one-element input \<open>[5.0]\<close> with \<open>com = 1\<close> and \<open>min_periods = 1\<close> the output is
  missing.
\<close>

theorem C1_min_periods_one_masks_first_valid:
  "ewma spec_extern (Raw (Arr1 [Fin 5])) (Some 1) None 1 None = Inr (Raw (Arr1 [NaN]))"
  by (simp add: ewma_eval_defs)

text \<open>With \<open>min_periods = 0\<close> nothing is masked and the first valid input is the output.\<close>

lemma ewma_min_periods_zero_example:
  "ewma spec_extern (Raw (Arr1 [Fin 5])) (Some 1) None 0 None = Inr (Raw (Arr1 [Fin 5]))"
  by (simp add: ewma_eval_defs)

subsection \<open>The bias correction of \<open>ewmvar\<close>\<close>

text \<open>
  Claim C2 as the specification states it: with \<open>com = 0\<close> and \<open>bias = False\<close> the
  division by zero in the correction factor flows into the output as an IEEE value.
  It does not: the factor is a quotient of Python floats, and the call raises.
\<close>

theorem C2_com_zero_counterexample:
  "ewmvar spec_extern (Raw (Arr1 [Fin 1, Fin 2])) (Some 0) None 0 False None
     = Inl ZeroDivisionError"
  by (simp add: ewmvar_def ewma_eval_defs bcast1_same_length bias_factor_def
      py_float_div_def fsub_def)

text \<open>
  Claim C2, amended: when the centre of mass \<open>c\<close> (given, or derived from the span) is
  not zero, \<open>ewmvar\<close> with \<open>bias = False\<close> is \<open>ewma(x\<^sup>2) - ewma(x)\<^sup>2\<close> times
  \<open>(1 + 2 c) / (2 c)\<close>, element by element; when \<open>c = 0\<close> and both moments have been
  computed the call raises \<open>ZeroDivisionError\<close>.
\<close>

theorem C2_ewmvar_unbiased:
  assumes "get_center_of_mass com span' = Inr c"
    and "arith fmul (conv_timerule E a time_rule) (conv_timerule E a time_rule) = Inr sq"
    and "ewma E sq (Some c) None min_periods None = Inr moment2nd"
    and "ewma E (conv_timerule E a time_rule) (Some c) None min_periods None = Inr moment1st"
    and "arith fsub moment2nd (arg_map (\<lambda>v. fmul v v) moment1st) = Inr d"
  shows "ewmvar E a com span' min_periods False time_rule
           = (if c = 0 then Inl ZeroDivisionError
              else Inr (arg_map (\<lambda>v. fmul v (Fin ((1 + 2 * c) / (2 * c)))) d))"
  using assms by (simp add: ewmvar_def bias_factor_def py_float_div_def Let_def)

theorem C2_ewmvar_unbiased_witness:
  "ewmvar spec_extern (Raw (Arr1 [Fin 1, Fin 2])) (Some 1) None 0 False None
     = Inr (Raw (Arr1 [Fin 0, Fin (3 / 8)]))"
proof -
  let ?a = "Raw (Arr1 [Fin 1, Fin 2])"
  have h1: "get_center_of_mass (Some 1) None = Inr 1"
    by (simp add: get_center_of_mass_def)
  have h2: "arith fmul (conv_timerule spec_extern ?a None) (conv_timerule spec_extern ?a None)
      = Inr (Raw (Arr1 [Fin 1, Fin 4]))"
    by (simp add: conv_timerule_def bcast1_same_length)
  have h3: "ewma spec_extern (Raw (Arr1 [Fin 1, Fin 4])) (Some 1) None 0 None
      = Inr (Raw (Arr1 [Fin 1, Fin (5 / 2)]))"
    by (simp add: ewma_eval_defs fsub_def)
  have h4: "ewma spec_extern (conv_timerule spec_extern ?a None) (Some 1) None 0 None
      = Inr (Raw (Arr1 [Fin 1, Fin (3 / 2)]))"
    by (simp add: ewma_eval_defs fsub_def)
  have h5: "arith fsub (Raw (Arr1 [Fin 1, Fin (5 / 2)]))
        (arg_map (\<lambda>v. fmul v v) (Raw (Arr1 [Fin 1, Fin (3 / 2)])))
      = Inr (Raw (Arr1 [Fin 0, Fin (1 / 4)]))"
    by (simp add: bcast1_same_length fsub_def)
  show ?thesis
    using C2_ewmvar_unbiased [OF h1 h2 h3 h4 h5] by simp
qed

subsection \<open>Where the \<open>com\<close>/\<open>span\<close> check happens\<close>

text \<open>
  Claim C6 as the specification states it: every exponentially weighted operation
  fails with the configuration error when both or neither of \<open>com\<close> and \<open>span\<close> are
  given, before anything else happens.  \<open>ewmcov\<close> and \<open>ewmcorr\<close> check the operand
  types first: with a raw array and a frame the type error wins.
\<close>

theorem C6_type_check_first_counterexample:
  "ewmcov spec_extern (Raw (Arr1 [Fin 1])) (DataFrame [] []) (Some 1) (Some 3) 0 False None
     = Inl NotSameType"
  by (simp add: ewmcov_def prep_binary_def)

text \<open>Nor is the arithmetic of the alignment skipped: arrays that do not broadcast raise.\<close>

lemma ewmcorr_alignment_before_config_example:
  "ewmcorr spec_extern (Raw (Arr1 [Fin 1, Fin 2])) (Raw (Arr1 [Fin 1, Fin 2, Fin 3]))
      None None 0 None
     = Inl ValueError"
  by (simp add: ewmcorr_def prep_binary_def bcast1_def bcast_def)

text \<open>
  Claim C6, amended: when both or neither of \<open>com\<close> and \<open>span\<close> are given, \<open>ewma\<close>,
  \<open>ewmvar\<close>, \<open>ewmstd\<close> and \<open>ewmvol\<close> fail with the configuration error whatever the
  input is; \<open>ewmcov\<close> and \<open>ewmcorr\<close> fail with it once the type check, the alignment
  arithmetic of \<open>_prep_binary\<close> and the product of the aligned operands have succeeded,
  and with the error of the first of these that fails otherwise.
\<close>

theorem C6_config_errors:
  assumes "com \<noteq> None \<and> span' \<noteq> None \<and> e = ComSpanExclusive
         \<or> com = None \<and> span' = None \<and> e = ComSpanMissing"
  shows "ewma E a com span' mp tr = Inl e
       \<and> ewmvar E a com span' mp bias tr = Inl e
       \<and> ewmstd E a com span' mp bias tr = Inl e
       \<and> ewmvol E a com span' mp bias tr = Inl e
       \<and> ewmcov E a b com span' mp bias tr
           = (case prep_binary a b of
                Inl e' \<Rightarrow> Inl e'
              | Inr (X, Y) \<Rightarrow>
                  (case arith fmul (conv_timerule E X tr) (conv_timerule E Y tr) of
                     Inl e' \<Rightarrow> Inl e'
                   | Inr XY \<Rightarrow> Inl e))
       \<and> ewmcorr E a b com span' mp tr
           = (case prep_binary a b of
                Inl e' \<Rightarrow> Inl e'
              | Inr (X, Y) \<Rightarrow>
                  (case arith fmul (conv_timerule E X tr) (conv_timerule E Y tr) of
                     Inl e' \<Rightarrow> Inl e'
                   | Inr XY \<Rightarrow> Inl e))"
proof -
  from assms have g: "get_center_of_mass com span' = Inl e"
    by (auto simp add: get_center_of_mass_def)
  have 1: "\<And>x. ewma E x com span' mp None = Inl e" "ewma E a com span' mp tr = Inl e"
    by (simp_all add: ewma_def g)
  have 2: "ewmvar E a com span' mp bias tr = Inl e"
    by (simp add: ewmvar_def g)
  have 3: "ewmstd E a com span' mp bias tr = Inl e"
    by (simp add: ewmstd_def 2)
  have 4: "ewmvol E a com span' mp bias tr = Inl e"
    by (simp add: ewmvol_def 3)
  have 5: "ewmcov E a b com span' mp bias tr
           = (case prep_binary a b of
                Inl e' \<Rightarrow> Inl e'
              | Inr (X, Y) \<Rightarrow>
                  (case arith fmul (conv_timerule E X tr) (conv_timerule E Y tr) of
                     Inl e' \<Rightarrow> Inl e'
                   | Inr XY \<Rightarrow> Inl e))"
    by (simp add: ewmcov_def 1 Let_def split: sum.splits prod.splits)
  have 6: "ewmcorr E a b com span' mp tr
           = (case prep_binary a b of
                Inl e' \<Rightarrow> Inl e'
              | Inr (X, Y) \<Rightarrow>
                  (case arith fmul (conv_timerule E X tr) (conv_timerule E Y tr) of
                     Inl e' \<Rightarrow> Inl e'
                   | Inr XY \<Rightarrow> Inl e))"
    by (simp add: ewmcorr_def 1 Let_def split: sum.splits prod.splits)
  from 1 2 3 4 5 6 show ?thesis by simp
qed

theorem C6_config_errors_witness:
  "ewma spec_extern (Raw (Arr1 [Fin 1])) (Some 1) (Some 3) 0 None = Inl ComSpanExclusive
   \<and> ewmstd spec_extern (Raw (Arr1 [Fin 1])) (Some 1) (Some 3) 0 False None
       = Inl ComSpanExclusive
   \<and> ewmcov spec_extern (Raw (Arr1 [Fin 1])) (Raw (Arr1 [Fin 2])) (Some 1) (Some 3) 0 False None
       = Inl ComSpanExclusive"
  using C6_config_errors [of "Some 1" "Some 3" ComSpanExclusive spec_extern
      "Raw (Arr1 [Fin 1])" 0 None False "Raw (Arr1 [Fin 2])"]
  by (simp add: prep_binary_def bcast1_same_length conv_timerule_def)

subsection \<open>\<open>ewmcorr\<close> against \<open>ewmcov\<close> and \<open>ewmvar\<close>\<close>

text \<open>
  Claim C7 as the specification states it: \<open>ewmcorr(x, y)\<close> is \<open>ewmcov(x, y)\<close> over
  \<open>sqrt(ewmvar(x, bias=true) * ewmvar(y, bias=true))\<close>.  On \<open>x = y = [1, 2]\<close> with
  \<open>com = 1\<close> the correlation is 1 at the second position and the quotient is 3/2, the
  bias correction that \<open>ewmcov\<close> applies by default.  On \<open>x = [1, 5, 1]\<close>,
  \<open>y = [1, NaN, 2]\<close> the correlation is missing at the last position, where the quotient
  is 0: the variances in \<open>ewmcorr\<close> are those of the jointly masked operands.
\<close>

theorem C7_quotient_counterexample:
  "ewmcorr spec_extern (Raw (Arr1 [Fin 1, Fin 2])) (Raw (Arr1 [Fin 1, Fin 2]))
      (Some 1) None 0 None
     = Inr (Raw (Arr1 [NaN, Fin 1]))
   \<and> ewmcorr_formula spec_extern False (Raw (Arr1 [Fin 1, Fin 2])) (Raw (Arr1 [Fin 1, Fin 2]))
      (Some 1) None 0 None
     = Inr (Raw (Arr1 [NaN, Fin (3 / 2)]))
   \<and> ewmcorr spec_extern (Raw (Arr1 [Fin 1, Fin 5, Fin 1])) (Raw (Arr1 [Fin 1, NaN, Fin 2]))
      (Some 1) None 0 None
     = Inr (Raw (Arr1 [NaN, NaN, NaN]))
   \<and> ewmcorr_formula spec_extern False (Raw (Arr1 [Fin 1, Fin 5, Fin 1]))
      (Raw (Arr1 [Fin 1, NaN, Fin 2])) (Some 1) None 0 None
     = Inr (Raw (Arr1 [NaN, NaN, Fin 0]))"
proof -
  have a: "ewmcorr spec_extern (Raw (Arr1 [Fin 1, Fin 2])) (Raw (Arr1 [Fin 1, Fin 2]))
      (Some 1) None 0 None = Inr (Raw (Arr1 [NaN, Fin 1]))"
    by (simp add: ewmcorr_def ewmvar_def prep_binary_def ewma_eval_defs bcast1_same_length
        fsub_def real_sqrt_divide)
  have b: "ewmcorr_formula spec_extern False (Raw (Arr1 [Fin 1, Fin 2]))
      (Raw (Arr1 [Fin 1, Fin 2])) (Some 1) None 0 None = Inr (Raw (Arr1 [NaN, Fin (3 / 2)]))"
    by (simp add: ewmcorr_formula_def ewmcov_def ewmvar_def prep_binary_def ewma_eval_defs
        bcast1_same_length fsub_def bias_factor_opt_def bias_factor_def py_float_div_def
        real_sqrt_divide)
  have c: "ewmcorr spec_extern (Raw (Arr1 [Fin 1, Fin 5, Fin 1]))
      (Raw (Arr1 [Fin 1, NaN, Fin 2])) (Some 1) None 0 None = Inr (Raw (Arr1 [NaN, NaN, NaN]))"
    by (simp add: ewmcorr_def ewmvar_def prep_binary_def ewma_eval_defs bcast1_same_length
        fsub_def)
  have d: "ewmcorr_formula spec_extern False (Raw (Arr1 [Fin 1, Fin 5, Fin 1]))
      (Raw (Arr1 [Fin 1, NaN, Fin 2])) (Some 1) None 0 None
      = Inr (Raw (Arr1 [NaN, NaN, Fin 0]))"
    by (simp add: ewmcorr_formula_def ewmcov_def ewmvar_def prep_binary_def ewma_eval_defs
        bcast1_same_length fsub_def bias_factor_opt_def bias_factor_def py_float_div_def)
  from a b c d show ?thesis by simp
qed

text \<open>The second input separates the two causes: it refutes the quotient with \<open>bias = True\<close> too.\<close>

lemma ewmcorr_formula_biased_example:
  "ewmcorr_formula spec_extern True (Raw (Arr1 [Fin 1, Fin 5, Fin 1]))
      (Raw (Arr1 [Fin 1, NaN, Fin 2])) (Some 1) None 0 None
     = Inr (Raw (Arr1 [NaN, NaN, Fin 0]))"
  by (simp add: ewmcorr_formula_def ewmcov_def ewmvar_def prep_binary_def ewma_eval_defs
      bcast1_same_length fsub_def)

text \<open>
  Claim C7, amended: \<open>ewmcorr(x, y)\<close> is \<open>ewmcov(x, y, bias=true)\<close> over
  \<open>sqrt(ewmvar(X, bias=true) * ewmvar(Y, bias=true))\<close>, where \<open>X\<close> and \<open>Y\<close> are the
  operands after \<open>_prep_binary\<close> (each plus zero times the other) and the conversion to
  the time rule; an error of any step is the error of the whole.
\<close>

theorem C7_ewmcorr_biased_aligned:
  "ewmcorr E arg1 arg2 com span' mp tr
     = ebind (ewmcov E arg1 arg2 com span' mp True tr) (\<lambda>cov.
       ebind (prep_binary arg1 arg2) (\<lambda>(X0, Y0).
         let X = conv_timerule E X0 tr;
             Y = conv_timerule E Y0 tr in
         ebind (ewmvar E X com span' mp True None) (\<lambda>vX.
         ebind (ewmvar E Y com span' mp True None) (\<lambda>vY.
         ebind (arith fmul vX vY) (\<lambda>p.
           arith fdiv cov (arg_map fsqrt p))))))"
  by (simp add: ewmcorr_def ewmcov_def Let_def ebind_def split: sum.splits prod.splits)

subsection \<open>\<open>rolling_count\<close> never reports a missing value\<close>

lemma rolling_sum_Raw:
  "values_of (rolling_sum E (Raw c) w (Some m) tr)
     = apply_along_axis (\<lambda>x. roll_sum E x w m) (kill_infs c)"
  by (cases tr) (simp_all add: rolling_sum_def rolling_func_def rolling_moment_def
      conv_timerule_def use_window_def)

lemma window_at_map: "window_at (map g x) w i = map g (window_at x w i)"
  by (simp add: window_at_def Let_def take_map drop_map)

lemma finite_vals_indicator:
  "finite_vals (map (\<lambda>v. if isfinite v then Fin 1 else Fin 0) xs)
     = map (\<lambda>v. if isfinite v then 1 else 0) xs"
  by (induction xs) simp_all

lemma sum_list_indicator:
  "sum_list (map (\<lambda>v. if isfinite v then 1 else 0) xs) = real (length (filter isfinite xs))"
  by (induction xs) simp_all

lemma kill_indicator:
  "(if isinf (if isfinite x then Fin 1 else Fin 0) then NaN
    else if isfinite x then Fin 1 else Fin 0) = (if isfinite x then Fin 1 else Fin 0)"
  by simp

lemma count_column:
  "map (\<lambda>v. if isnan v then Fin 0 else v)
     (spec_roll stat_sum (map (\<lambda>v. if isfinite v then Fin 1 else Fin 0) x) w 1)
   = count_finite x w"
  by (simp add: spec_roll_def count_finite_def window_at_map finite_vals_indicator
      sum_list_indicator stat_sum_def Let_def)

lemma map_snd_zip_map:
  "map snd (zip (map fst cols) (map g (map snd cols))) = map g (map snd cols)"
  by (induction cols) simp_all

lemma rolling_count_columns:
  assumes "roll_sum E = spec_roll stat_sum"
  shows "nd_columns (values_of (rolling_count E a w tr))
     = map (\<lambda>col. count_finite col (min w (int (len (conv_timerule E a tr)))))
         (nd_columns (values_of (conv_timerule E a tr)))"
proof (cases "conv_timerule E a tr")
  case (Raw v)
  then show ?thesis
    by (cases v) (simp_all add: rolling_count_def rolling_sum_Raw assms kill_infs_def
        kill_indicator count_column Let_def comp_def)
next
  case (Series idx vs)
  then show ?thesis
    by (simp add: rolling_count_def rolling_sum_Raw assms kill_infs_def kill_indicator
        count_column Let_def comp_def)
next
  case (DataFrame idx cols)
  have "map snd (zip (map fst cols)
          (map (\<lambda>col. count_finite col (min w (int (length idx)))) (map snd cols)))
        = map (\<lambda>col. count_finite col (min w (int (length idx)))) (map snd cols)"
    by (rule map_snd_zip_map)
  with DataFrame show ?thesis
    by (simp add: rolling_count_def rolling_sum_Raw assms kill_infs_def kill_indicator
        count_column Let_def comp_def)
qed

lemma rolling_count_never_missing:
  "v \<in> set (concat (nd_columns (values_of (rolling_count E a w tr)))) \<Longrightarrow> \<not> isnan v"
proof -
  assume v: "v \<in> set (concat (nd_columns (values_of (rolling_count E a w tr))))"
  define r where "r = values_of (rolling_sum E
      (Raw (nd_map (\<lambda>v. if isfinite v then Fin 1 else Fin 0)
         (snd (process_data_structure (conv_timerule E a tr) False))))
      (min w (int (len (conv_timerule E a tr)))) (Some 1) tr)"
  have r: "rolling_count E a w tr
      = fst (process_data_structure (conv_timerule E a tr) False)
          (nd_map (\<lambda>v. if isnan v then Fin 0 else v) r)"
    by (simp add: rolling_count_def r_def Let_def split: prod.splits)
  have sub: "set (map snd (zip ns cs)) \<subseteq> set cs" for ns :: "colname list" and cs :: "fl list list"
    by (auto dest: set_zip_rightD)
  show ?thesis
  proof (cases "conv_timerule E a tr")
    case (Raw x)
    with r v show ?thesis by (cases r) auto
  next
    case (Series idx vs)
    with r v show ?thesis by (cases r) auto
  next
    case (DataFrame idx cols)
    with r v show ?thesis using sub by (cases r) (auto dest!: set_zip_rightD)
  qed
qed

lemma count_finite_zero:
  "i < length x \<Longrightarrow> filter isfinite (window_at x w i) = [] \<Longrightarrow> count_finite x w ! i = Fin 0"
  by (simp add: count_finite_def)

text \<open>
  Claim C5: no value of the result of \<open>rolling_count\<close> is missing, for any input, any
  window and any sum kernel.  With the sum kernel of the specification the value at
  every position of every column is the number of finite values in the trailing window,
  the window being clipped to the length of the input: it is 0 where the window holds
  no finite value, and it is a count, not a missing value, at the first positions
  where the window is not yet full, which is the gate \<open>min_periods = 1\<close> that
  \<open>rolling_count\<close> passes on whatever the caller does (it takes no \<open>min_periods\<close>).
\<close>

theorem C5_rolling_count_never_missing:
  assumes "roll_sum E = spec_roll stat_sum"
  shows "(\<forall>v \<in> set (concat (nd_columns (values_of (rolling_count E a w tr)))). \<not> isnan v)
       \<and> nd_columns (values_of (rolling_count E a w tr))
           = map (\<lambda>col. count_finite col (min w (int (len (conv_timerule E a tr)))))
               (nd_columns (values_of (conv_timerule E a tr)))"
  using rolling_count_never_missing [of _ E a w tr] rolling_count_columns [OF assms, of a w tr]
  by blast

theorem C5_rolling_count_never_missing_witness:
  "roll_sum spec_extern = spec_roll stat_sum
   \<and> nd_columns (values_of (rolling_count spec_extern (Raw (Arr1 [NaN, Fin 3, PInf])) 2 None))
       = [[Fin 0, Fin 1, Fin 1]]"
proof -
  have h: "roll_sum spec_extern = spec_roll stat_sum"
    by (simp add: spec_extern_def)
  have u: "[0..<3] = [0, 1, 2]"
    by (simp add: upt_rec)
  show ?thesis
    using h C5_rolling_count_never_missing [OF h, of "Raw (Arr1 [NaN, Fin 3, PInf])" 2 None]
    by (simp add: conv_timerule_def count_finite_def window_at_def u)
qed

subsection \<open>The pairwise correlation is symmetric\<close>

text \<open>Storing a value under a pair of keys and under the swapped pair.\<close>

lemma lookup2_store2_other:
  "k1 \<noteq> a \<Longrightarrow> lookup2 (store2 m a b v) k1 k2 = lookup2 m k1 k2"
  unfolding lookup2_def store2_def
  by (simp only: fun_upd_apply if_False)

lemma lookup2_store2_same:
  "lookup2 (store2 m a b v) a k2 = (if k2 = b then Some v else lookup2 m a k2)"
  unfolding lookup2_def store2_def
  by (cases "m a") (simp_all only: option.case fun_upd_apply if_True if_False empty_def refl)

lemma lookup2_store2:
  "lookup2 (store2 m a b v) k1 k2 = (if k1 = a \<and> k2 = b then Some v else lookup2 m k1 k2)"
proof (cases "k1 = a")
  case True
  then show ?thesis using lookup2_store2_same [of m a b v k2] by simp
next
  case False
  then show ?thesis using lookup2_store2_other [of k1 a m b v k2] by simp
qed

lemma lookup2_store_both:
  "lookup2 (store2 (store2 m k1 k2 v) k2 k1 v) a b
     = (if (a = k1 \<and> b = k2) \<or> (a = k2 \<and> b = k1) then Some v else lookup2 m a b)"
  unfolding lookup2_store2
  by (cases "a = k1"; cases "b = k2"; cases "a = k2"; cases "b = k1") simp_all

lemma store_both_symmetric:
  assumes "\<And>a b. lookup2 m a b = lookup2 m b a"
  shows "lookup2 (store2 (store2 m k1 k2 v) k2 k1 v) a b
       = lookup2 (store2 (store2 m k1 k2 v) k2 k1 v) b a"
  unfolding lookup2_store_both using assms [of a b]
  by (cases "a = k1"; cases "b = k2"; cases "a = k2"; cases "b = k1") simp_all

lemma pairwise_inner_symmetric:
  "pairwise_inner E df w mp k1 ks m = Inr r \<Longrightarrow> (\<And>a b. lookup2 m a b = lookup2 m b a)
     \<Longrightarrow> lookup2 r a b = lookup2 r b a"
proof (induction ks arbitrary: m)
  case Nil
  then show ?case by simp
next
  case (Cons k2 ks)
  from Cons.prems(1) obtain corr where
    step: "pairwise_inner E df w mp k1 ks (store2 (store2 m k1 k2 corr) k2 k1 corr) = Inr r"
    by (auto simp add: ebind_def split: sum.splits)
  show ?case
    by (rule Cons.IH [OF step]) (rule store_both_symmetric, rule Cons.prems(2))
qed

lemma pairwise_outer_symmetric:
  "pairwise_outer E df w mp ks m = Inr r \<Longrightarrow> (\<And>a b. lookup2 m a b = lookup2 m b a)
     \<Longrightarrow> lookup2 r a b = lookup2 r b a"
proof (induction ks arbitrary: m)
  case Nil
  then show ?case by simp
next
  case (Cons k1 ks)
  from Cons.prems(1) obtain m' where
    inner: "pairwise_inner E df w mp k1 (k1 # ks) m = Inr m'"
    and outer: "pairwise_outer E df w mp ks m' = Inr r"
    by (auto simp add: ebind_def split: sum.splits)
  show ?case
    by (rule Cons.IH [OF outer]) (rule pairwise_inner_symmetric [OF inner], rule Cons.prems(2))
qed

lemma pairwise_results_symmetric:
  assumes "pairwise_results E df w mp = Inr r"
  shows "lookup2 r k1 k2 = lookup2 r k2 k1"
proof -
  from assms obtain columns where
    outer: "pairwise_outer E df w mp columns Map.empty = Inr r"
    by (auto simp add: pairwise_results_def ebind_def split: sum.splits)
  show ?thesis
    by (rule pairwise_outer_symmetric [OF outer]) (simp add: lookup2_def)
qed

lemma rolling_corr_pairwise_symmetric:
  assumes "rolling_corr_pairwise E df w mp = Inr M"
  shows "M t i j = M t j i"
proof -
  from assms obtain r where r: "pairwise_results E df w mp = Inr r"
    and M: "M = panel_from_dict_swapaxes r"
    by (auto simp add: rolling_corr_pairwise_def ebind_def split: sum.splits)
  show ?thesis
    unfolding M panel_from_dict_swapaxes_def
    using pairwise_results_symmetric [OF r, of i j] by simp
qed

text \<open>
  The paired operations on two \<^verbatim>\<open>Series\<close> return a \<^verbatim>\<open>Series\<close>: the arithmetic of two
  \<^verbatim>\<open>Series\<close> aligns them and never raises, and the rolling operations keep the
  container.  So the pairwise loop over the columns of a frame runs to its end.
\<close>

lemma is_Series_cases: "is_Series x \<Longrightarrow> \<exists>i v. x = Series i v"
  by (cases x) simp_all

lemma arith_Series:
  assumes "is_Series x" "is_Series y"
  shows "\<exists>z. arith op x y = Inr z \<and> is_Series z"
proof -
  from assms obtain i a j b where "x = Series i a" "y = Series j b"
    by (meson is_Series_cases)
  then show ?thesis by (simp add: Let_def)
qed

lemma arg_map_Series: "is_Series x \<Longrightarrow> is_Series (arg_map g x)"
  by (cases x) simp_all

lemma rolling_moment_Series:
  "is_Series x \<Longrightarrow> is_Series (rolling_moment E x w func mp None)"
  by (cases x) (simp_all add: rolling_moment_def conv_timerule_def)

lemma rolling_mean_Series: "is_Series x \<Longrightarrow> is_Series (rolling_mean E x w mp None)"
  by (simp add: rolling_mean_def rolling_func_def rolling_moment_Series)

lemma rolling_std_Series: "is_Series x \<Longrightarrow> is_Series (rolling_std E x w mp None)"
  by (simp add: rolling_std_def rolling_func_def rolling_moment_Series)

lemma rolling_count_Series: "is_Series x \<Longrightarrow> is_Series (rolling_count E x w None)"
  by (cases x) (simp_all add: rolling_count_def conv_timerule_def Let_def)

lemma prep_binary_Series:
  assumes "is_Series x" "is_Series y"
  shows "\<exists>X Y. prep_binary x y = Inr (X, Y) \<and> is_Series X \<and> is_Series Y"
proof -
  from assms have t: "isinstance_type_of y x" by (cases x; cases y) simp_all
  from arith_Series [OF assms(1) arg_map_Series [OF assms(2)]]
  obtain X where X: "arith fadd x (arg_map (fmul (Fin 0)) y) = Inr X" "is_Series X" by blast
  from arith_Series [OF assms(2) arg_map_Series [OF assms(1)]]
  obtain Y where Y: "arith fadd y (arg_map (fmul (Fin 0)) x) = Inr Y" "is_Series Y" by blast
  from t X Y show ?thesis by (simp add: prep_binary_def)
qed

lemma flex_ndarray:
  "is_ndarray x \<Longrightarrow> is_ndarray y \<Longrightarrow>
   flex_binary_moment x y f = ebind (prep_binary x y) (\<lambda>(X, Y). f X Y)"
  by (subst flex_binary_moment.simps) simp

lemma is_Series_ndarray: "is_Series x \<Longrightarrow> is_ndarray x"
  by (cases x) simp_all

lemma flex_Series:
  assumes "is_Series x" "is_Series y"
    and f: "\<And>X Y. is_Series X \<Longrightarrow> is_Series Y \<Longrightarrow> \<exists>z. f X Y = Inr z \<and> is_Series z"
  shows "\<exists>z. flex_binary_moment x y f = Inr z \<and> is_Series z"
proof -
  from prep_binary_Series [OF assms(1,2)] obtain X Y where
    p: "prep_binary x y = Inr (X, Y)" "is_Series X" "is_Series Y" by blast
  from f [OF p(2,3)] p(1) show ?thesis
    by (simp add: flex_ndarray is_Series_ndarray assms(1,2))
qed

lemma get_cov_Series:
  assumes "is_Series X" "is_Series Y"
  shows "\<exists>z. get_cov E w mp None X Y = Inr z \<and> is_Series z"
proof -
  from arith_Series [OF assms] obtain XpY where
    1: "arith fadd X Y = Inr XpY" "is_Series XpY" by blast
  let ?count = "rolling_count E XpY w None"
  have c: "is_Series ?count" by (rule rolling_count_Series [OF 1(2)])
  from arith_Series [OF c arg_map_Series [OF c]] obtain bias_adj where
    2: "arith fdiv ?count (arg_map (\<lambda>v. fsub v (Fin 1)) ?count) = Inr bias_adj"
       "is_Series bias_adj" by blast
  from arith_Series [OF assms] obtain XY where
    3: "arith fmul X Y = Inr XY" "is_Series XY" by blast
  from arith_Series [OF rolling_mean_Series [OF assms(1)] rolling_mean_Series [OF assms(2)]]
  obtain mXmY where
    4: "arith fmul (rolling_mean E X w mp None) (rolling_mean E Y w mp None) = Inr mXmY"
       "is_Series mXmY" by blast
  from arith_Series [OF rolling_mean_Series [OF 3(2)] 4(2)] obtain d where
    5: "arith fsub (rolling_mean E XY w mp None) mXmY = Inr d" "is_Series d" by blast
  from arith_Series [OF 5(2) 2(2)] obtain z where
    6: "arith fmul d bias_adj = Inr z" "is_Series z" by blast
  from 1 2 3 4 5 6 show ?thesis by (simp add: get_cov_def Let_def)
qed

lemma rolling_cov_Series:
  assumes "is_Series x" "is_Series y"
  shows "\<exists>z. rolling_cov E x y w mp None = Inr z \<and> is_Series z"
  unfolding rolling_cov_def
  by (rule flex_Series [OF assms]) (rule get_cov_Series)

lemma get_corr_Series:
  assumes "is_Series a" "is_Series b"
  shows "\<exists>z. get_corr E w mp None a b = Inr z \<and> is_Series z"
proof -
  from rolling_cov_Series [OF assms] obtain num where
    1: "rolling_cov E a b w mp None = Inr num" "is_Series num" by blast
  from arith_Series [OF rolling_std_Series [OF assms(1)] rolling_std_Series [OF assms(2)]]
  obtain den where
    2: "arith fmul (rolling_std E a w mp None) (rolling_std E b w mp None) = Inr den"
       "is_Series den" by blast
  from arith_Series [OF 1(2) 2(2)] obtain z where
    3: "arith fdiv num den = Inr z" "is_Series z" by blast
  from 1 2 3 show ?thesis by (simp add: get_corr_def)
qed

lemma rolling_corr_Series:
  assumes "is_Series x" "is_Series y"
  shows "\<exists>z. rolling_corr E x y w mp None = Inr z \<and> is_Series z"
  unfolding rolling_corr_def
  by (rule flex_Series [OF assms]) (rule get_corr_Series)

lemma column_Series:
  "k \<in> fst ` set cols \<Longrightarrow> \<exists>s. column (DataFrame idx cols) k = Inr s \<and> is_Series s"
proof -
  assume "k \<in> fst ` set cols"
  then obtain v where "map_of cols k = Some v"
    by (metis map_of_eq_None_iff not_Some_eq)
  then show ?thesis by simp
qed

lemma pairwise_inner_total:
  assumes "k1 \<in> fst ` set cols" "set ks \<subseteq> fst ` set cols"
  shows "\<exists>r. pairwise_inner E (DataFrame idx cols) w mp k1 ks m = Inr r"
  using assms(2)
proof (induction ks arbitrary: m)
  case Nil
  then show ?case by simp
next
  case (Cons k2 ks)
  from column_Series [OF assms(1)] obtain s1 where
    s1: "column (DataFrame idx cols) k1 = Inr s1" "is_Series s1" by blast
  from Cons.prems have "k2 \<in> fst ` set cols" by simp
  from column_Series [OF this] obtain s2 where
    s2: "column (DataFrame idx cols) k2 = Inr s2" "is_Series s2" by blast
  from rolling_corr_Series [OF s1(2) s2(2)] obtain corr where
    c: "rolling_corr E s1 s2 w mp None = Inr corr" by blast
  from Cons.prems have "set ks \<subseteq> fst ` set cols" by simp
  from Cons.IH [OF this] s1 s2 c show ?case by simp
qed

lemma pairwise_outer_total:
  assumes "set ks \<subseteq> fst ` set cols"
  shows "\<exists>r. pairwise_outer E (DataFrame idx cols) w mp ks m = Inr r"
  using assms
proof (induction ks arbitrary: m)
  case Nil
  then show ?case by simp
next
  case (Cons k1 ks)
  from Cons.prems have k1: "k1 \<in> fst ` set cols" by simp
  from pairwise_inner_total [OF k1 Cons.prems] obtain m' where
    i: "pairwise_inner E (DataFrame idx cols) w mp k1 (k1 # ks) m = Inr m'" by blast
  from Cons.prems have "set ks \<subseteq> fst ` set cols" by simp
  from Cons.IH [OF this] i show ?case by (simp del: pairwise_inner.simps)
qed

lemma pairwise_results_total:
  "\<exists>r. pairwise_results E (DataFrame idx cols) w mp = Inr r"
  using pairwise_outer_total [of "map fst cols" cols E idx w mp Map.empty]
  by (simp add: pairwise_results_def)

lemma rolling_corr_pairwise_total:
  "\<exists>M. rolling_corr_pairwise E (DataFrame idx cols) w mp = Inr M"
  using pairwise_results_total [of E idx cols w mp]
  by (auto simp add: rolling_corr_pairwise_def)

text \<open>
  What the loops store.  With column names that are distinct, each unordered pair of
  columns is visited once, and no later iteration overwrites its two entries.
\<close>

lemma pairwise_inner_step:
  assumes "pairwise_inner E df w mp k1 (k2 # ks) m = Inr r"
  obtains c where "corr_of_columns E df w mp k1 k2 = Inr c"
    and "pairwise_inner E df w mp k1 ks (store2 (store2 m k1 k2 c) k2 k1 c) = Inr r"
  using assms
  by (auto simp add: corr_of_columns_def ebind_def split: sum.splits)

lemma pairwise_inner_entries:
  assumes "pairwise_inner E df w mp k1 ks m = Inr r" "distinct ks"
  shows "(\<forall>k2 \<in> set ks. \<exists>c. corr_of_columns E df w mp k1 k2 = Inr c
            \<and> lookup2 r k1 k2 = Some c \<and> lookup2 r k2 k1 = Some c)
       \<and> (\<forall>a b. \<not> (a = k1 \<and> b \<in> set ks) \<and> \<not> (b = k1 \<and> a \<in> set ks)
            \<longrightarrow> lookup2 r a b = lookup2 m a b)"
  using assms
proof (induction ks arbitrary: m)
  case Nil
  then show ?case by simp
next
  case (Cons k2 ks)
  from Cons.prems(1) obtain c where
    c: "corr_of_columns E df w mp k1 k2 = Inr c"
    and step: "pairwise_inner E df w mp k1 ks (store2 (store2 m k1 k2 c) k2 k1 c) = Inr r"
    by (rule pairwise_inner_step)
  let ?m' = "store2 (store2 m k1 k2 c) k2 k1 c"
  from Cons.prems(2) have d: "distinct ks" and k2: "k2 \<notin> set ks" by simp_all
  from Cons.IH [OF step d] have
    ent: "\<And>k. k \<in> set ks \<Longrightarrow> \<exists>c. corr_of_columns E df w mp k1 k = Inr c
            \<and> lookup2 r k1 k = Some c \<and> lookup2 r k k1 = Some c"
    and frame: "\<And>a b. \<not> (a = k1 \<and> b \<in> set ks) \<Longrightarrow> \<not> (b = k1 \<and> a \<in> set ks)
            \<Longrightarrow> lookup2 r a b = lookup2 ?m' a b"
    by blast+
  have m'1: "lookup2 ?m' k1 k2 = Some c" and m'2: "lookup2 ?m' k2 k1 = Some c"
    by (simp_all add: lookup2_store_both)
  have r1: "lookup2 r k1 k2 = Some c"
    using frame [of k1 k2] k2 m'1 by metis
  have r2: "lookup2 r k2 k1 = Some c"
    using frame [of k2 k1] k2 m'2 by metis
  have A: "\<exists>c. corr_of_columns E df w mp k1 k = Inr c
            \<and> lookup2 r k1 k = Some c \<and> lookup2 r k k1 = Some c"
    if "k \<in> set (k2 # ks)" for k
  proof (cases "k = k2")
    case True
    with c r1 r2 show ?thesis by blast
  next
    case False
    with that have "k \<in> set ks" by simp
    then show ?thesis by (rule ent)
  qed
  have B: "lookup2 r a b = lookup2 m a b"
    if n1: "\<not> (a = k1 \<and> b \<in> set (k2 # ks))" and n2: "\<not> (b = k1 \<and> a \<in> set (k2 # ks))"
    for a b
  proof -
    from n1 have p1: "\<not> (a = k1 \<and> b \<in> set ks)" and q1: "\<not> (a = k1 \<and> b = k2)" by auto
    from n2 have p2: "\<not> (b = k1 \<and> a \<in> set ks)" and q2: "\<not> (a = k2 \<and> b = k1)" by auto
    have "lookup2 r a b = lookup2 ?m' a b" by (rule frame [OF p1 p2])
    also have "\<dots> = lookup2 m a b"
      unfolding lookup2_store_both using q1 q2 by (simp only: simp_thms if_False)
    finally show ?thesis .
  qed
  from A B show ?case by blast
qed

lemma pairwise_outer_entries:
  assumes "pairwise_outer E df w mp ks m = Inr r" "distinct ks"
  shows "(\<forall>i j. i \<le> j \<and> j < length ks \<longrightarrow>
            (\<exists>c. corr_of_columns E df w mp (ks ! i) (ks ! j) = Inr c
               \<and> lookup2 r (ks ! i) (ks ! j) = Some c \<and> lookup2 r (ks ! j) (ks ! i) = Some c))
       \<and> (\<forall>a b. a \<notin> set ks \<or> b \<notin> set ks \<longrightarrow> lookup2 r a b = lookup2 m a b)"
  using assms
proof (induction ks arbitrary: m)
  case Nil
  then show ?case by simp
next
  case (Cons k1 ks)
  from Cons.prems(1) obtain m' where
    inner: "pairwise_inner E df w mp k1 (k1 # ks) m = Inr m'"
    and outer: "pairwise_outer E df w mp ks m' = Inr r"
    by (auto simp add: ebind_def split: sum.splits)
  from Cons.prems(2) have d: "distinct ks" and k1: "k1 \<notin> set ks" by simp_all
  from pairwise_inner_entries [OF inner Cons.prems(2)] have
    ient: "\<And>k. k \<in> set (k1 # ks) \<Longrightarrow> \<exists>c. corr_of_columns E df w mp k1 k = Inr c
            \<and> lookup2 m' k1 k = Some c \<and> lookup2 m' k k1 = Some c"
    and iframe: "\<And>a b. \<not> (a = k1 \<and> b \<in> set (k1 # ks)) \<Longrightarrow> \<not> (b = k1 \<and> a \<in> set (k1 # ks))
            \<Longrightarrow> lookup2 m' a b = lookup2 m a b"
    by blast+
  from Cons.IH [OF outer d] have
    oent: "\<And>i j. i \<le> j \<Longrightarrow> j < length ks \<Longrightarrow>
            \<exists>c. corr_of_columns E df w mp (ks ! i) (ks ! j) = Inr c
               \<and> lookup2 r (ks ! i) (ks ! j) = Some c \<and> lookup2 r (ks ! j) (ks ! i) = Some c"
    and oframe: "\<And>a b. a \<notin> set ks \<or> b \<notin> set ks \<Longrightarrow> lookup2 r a b = lookup2 m' a b"
    by blast+
  have A: "\<exists>c. corr_of_columns E df w mp ((k1 # ks) ! i) ((k1 # ks) ! j) = Inr c
               \<and> lookup2 r ((k1 # ks) ! i) ((k1 # ks) ! j) = Some c
               \<and> lookup2 r ((k1 # ks) ! j) ((k1 # ks) ! i) = Some c"
    if ij: "i \<le> j" and j: "j < length (k1 # ks)" for i j
  proof (cases i)
    case 0
    let ?k = "(k1 # ks) ! j"
    from j have mem: "?k \<in> set (k1 # ks)" by (rule nth_mem)
    from ient [OF mem] obtain c where
      c: "corr_of_columns E df w mp k1 ?k = Inr c" "lookup2 m' k1 ?k = Some c"
         "lookup2 m' ?k k1 = Some c" by blast
    have "lookup2 r k1 ?k = lookup2 m' k1 ?k" using oframe [of k1 ?k] k1 by blast
    moreover have "lookup2 r ?k k1 = lookup2 m' ?k k1" using oframe [of ?k k1] k1 by blast
    ultimately show ?thesis using c 0 by simp
  next
    case (Suc i')
    with ij obtain j' where j': "j = Suc j'" by (cases j) simp_all
    from ij j Suc j' have "i' \<le> j'" "j' < length ks" by simp_all
    from oent [OF this] show ?thesis by (simp add: Suc j')
  qed
  have B: "lookup2 r a b = lookup2 m a b" if n: "a \<notin> set (k1 # ks) \<or> b \<notin> set (k1 # ks)" for a b
  proof -
    from n have "a \<notin> set ks \<or> b \<notin> set ks" by auto
    then have "lookup2 r a b = lookup2 m' a b" by (rule oframe)
    also have "\<dots> = lookup2 m a b"
    proof (rule iframe)
      show "\<not> (a = k1 \<and> b \<in> set (k1 # ks))" using n by auto
      show "\<not> (b = k1 \<and> a \<in> set (k1 # ks))" using n by auto
    qed
    finally show ?thesis .
  qed
  from A B show ?case by blast
qed

lemma map_of_nth_distinct:
  "distinct (map fst cols) \<Longrightarrow> i < length cols \<Longrightarrow> map_of cols (fst (cols ! i)) = Some (snd (cols ! i))"
  by (metis map_of_is_SomeI nth_mem prod.collapse)

lemma corr_of_columns_nth:
  assumes "distinct (map fst cols)" "i < length cols" "j < length cols"
  shows "corr_of_columns E (DataFrame idx cols) w mp (fst (cols ! i)) (fst (cols ! j))
       = rolling_corr E (Series idx (snd (cols ! i))) (Series idx (snd (cols ! j))) w mp None"
  by (simp add: corr_of_columns_def map_of_nth_distinct [OF assms(1)] assms(2,3))

lemma pairwise_results_entries:
  assumes r: "pairwise_results E (DataFrame idx cols) w mp = Inr r"
    and d: "distinct (map fst cols)" and ij: "i \<le> j" "j < length cols"
  shows "\<exists>c. rolling_corr E (Series idx (snd (cols ! i))) (Series idx (snd (cols ! j))) w mp None
            = Inr c
          \<and> lookup2 r (fst (cols ! i)) (fst (cols ! j)) = Some c
          \<and> lookup2 r (fst (cols ! j)) (fst (cols ! i)) = Some c"
proof -
  from r have outer: "pairwise_outer E (DataFrame idx cols) w mp (map fst cols) Map.empty = Inr r"
    by (simp add: pairwise_results_def)
  from ij have i: "i < length cols" by simp
  from pairwise_outer_entries [OF outer d] ij obtain c where
    c: "corr_of_columns E (DataFrame idx cols) w mp (map fst cols ! i) (map fst cols ! j) = Inr c"
       "lookup2 r (map fst cols ! i) (map fst cols ! j) = Some c"
       "lookup2 r (map fst cols ! j) (map fst cols ! i) = Some c"
    by (metis length_map)
  with i ij(2) corr_of_columns_nth [OF d i ij(2), of E idx w mp] show ?thesis
    by simp
qed

text \<open>
  Claim C8: for every frame \<open>rolling_corr_pairwise\<close> returns a structure \<open>M\<close> indexed by
  (time, column, column) with \<open>M t i j = M t j i\<close>.  It is built from the upper triangle:
  when the column names are distinct, for every pair of positions \<open>i \<le> j\<close> the entries
  at \<open>(c\<^sub>i, c\<^sub>j)\<close> and at \<open>(c\<^sub>j, c\<^sub>i)\<close> are both the rolling correlation computed for
  the columns in the order \<open>(c\<^sub>i, c\<^sub>j)\<close>.
\<close>

theorem C8_pairwise_symmetric:
  "\<exists>M. rolling_corr_pairwise E (DataFrame idx cols) w mp = Inr M
       \<and> (\<forall>t i j. M t i j = M t j i)
       \<and> (distinct (map fst cols) \<longrightarrow>
            (\<forall>i j. i \<le> j \<and> j < length cols \<longrightarrow>
               (\<exists>c. rolling_corr E (Series idx (snd (cols ! i))) (Series idx (snd (cols ! j)))
                        w mp None = Inr c
                  \<and> (\<forall>t. M t (fst (cols ! i)) (fst (cols ! j)) = value_at c t
                         \<and> M t (fst (cols ! j)) (fst (cols ! i)) = value_at c t))))"
proof -
  from pairwise_results_total [of E idx cols w mp] obtain r where
    r: "pairwise_results E (DataFrame idx cols) w mp = Inr r" by blast
  let ?M = "panel_from_dict_swapaxes r"
  have M: "rolling_corr_pairwise E (DataFrame idx cols) w mp = Inr ?M"
    by (simp add: rolling_corr_pairwise_def r)
  have sym: "\<forall>t i j. ?M t i j = ?M t j i"
    using rolling_corr_pairwise_symmetric [OF M] by blast
  have tri: "\<exists>c. rolling_corr E (Series idx (snd (cols ! i))) (Series idx (snd (cols ! j)))
                        w mp None = Inr c
                  \<and> (\<forall>t. ?M t (fst (cols ! i)) (fst (cols ! j)) = value_at c t
                         \<and> ?M t (fst (cols ! j)) (fst (cols ! i)) = value_at c t)"
    if "distinct (map fst cols)" "i \<le> j" "j < length cols" for i j
  proof -
    from pairwise_results_entries [OF r that] obtain c where
      c: "rolling_corr E (Series idx (snd (cols ! i))) (Series idx (snd (cols ! j))) w mp None
            = Inr c"
         "lookup2 r (fst (cols ! i)) (fst (cols ! j)) = Some c"
         "lookup2 r (fst (cols ! j)) (fst (cols ! i)) = Some c" by blast
    then show ?thesis by (simp add: panel_from_dict_swapaxes_def)
  qed
  from M sym tri show ?thesis by blast
qed

theorem C8_pairwise_symmetric_witness:
  "distinct (map fst [(''a'', [Fin 1, Fin 2]), (''b'', [Fin 2, Fin 1])])
   \<and> (\<exists>M. rolling_corr_pairwise spec_extern
             (DataFrame [0, 1] [(''a'', [Fin 1, Fin 2]), (''b'', [Fin 2, Fin 1])]) 2 None = Inr M
          \<and> M 1 ''a'' ''b'' = M 1 ''b'' ''a'')"
proof -
  have d: "distinct (map fst [(''a'', [Fin 1, Fin 2]), (''b'', [Fin 2, Fin 1])])"
    by simp
  from C8_pairwise_symmetric
    [of spec_extern "[0, 1]" "[(''a'', [Fin 1, Fin 2]), (''b'', [Fin 2, Fin 1])]" 2 None]
  obtain M where
    "rolling_corr_pairwise spec_extern
       (DataFrame [0, 1] [(''a'', [Fin 1, Fin 2]), (''b'', [Fin 2, Fin 1])]) 2 None = Inr M"
    "\<forall>t i j. M t i j = M t j i"
    by blast
  with d show ?thesis by blast
qed

subsection \<open>The joint mask of the paired operations\<close>

text \<open>
  Adding zero times the other side leaves a value as it is where the other side is
  finite and makes it missing elsewhere.  So \<open>_prep_binary\<close> masks both operands
  jointly: on arrays of one length and on \<^verbatim>\<open>Series\<close> with one index, a position that
  is missing on either side is missing on both.
\<close>

lemma mask_other: "fadd u (fmul (Fin 0) v) = (if isfinite v then u else NaN)"
  by (cases u; cases v) simp_all

lemma map2_mask_zero:
  "map2 fadd a (map (fmul (Fin 0)) b) = map2 (\<lambda>u v. if isfinite v then u else NaN) a b"
proof (induction a arbitrary: b)
  case Nil
  then show ?case by simp
next
  case (Cons u a)
  then show ?case by (cases b) (simp_all add: mask_other)
qed

lemma prep_binary_Arr1:
  assumes "length a = length b"
  shows "prep_binary (Raw (Arr1 a)) (Raw (Arr1 b))
       = Inr (Raw (Arr1 (map2 (\<lambda>u v. if isfinite v then u else NaN) a b)),
              Raw (Arr1 (map2 (\<lambda>u v. if isfinite v then u else NaN) b a)))"
  using assms by (simp add: prep_binary_def bcast1_same_length map2_mask_zero)

lemma prep_binary_Series_same_index:
  "prep_binary (Series idx a) (Series idx b)
       = Inr (Series idx (map2 (\<lambda>u v. if isfinite v then u else NaN) a b),
              Series idx (map2 (\<lambda>u v. if isfinite v then u else NaN) b a))"
  by (simp add: prep_binary_def map2_mask_zero)

lemma joint_mask_nth:
  assumes "length a = length b" "i < length a" "isnan (a ! i) \<or> isnan (b ! i)"
  shows "isnan (map2 (\<lambda>u v. if isfinite v then u else NaN) a b ! i)
       \<and> isnan (map2 (\<lambda>u v. if isfinite v then u else NaN) b a ! i)"
proof -
  have "\<not> isfinite v" if "isnan v" for v using that by (cases v) simp_all
  with assms show ?thesis by auto
qed

text \<open>
  The branches of \<open>_flex_binary_moment\<close> for two arrays or \<^verbatim>\<open>Series\<close> and for two frames
  hand the reducer the jointly masked pair.  A reducer that returns its first argument
  shows what it is given.
\<close>

lemma flex_frame_frame_probe:
  "flex_binary_moment (DataFrame [0, 1] [(''a'', [Fin 1, Fin 2])])
      (DataFrame [0, 1] [(''a'', [NaN, Fin 1])]) (\<lambda>X Y. Inr X)
     = Inr (DataFrame [0, 1] [(''a'', [NaN, Fin 2])])"
  by (subst flex_binary_moment.simps)
     (simp add: index_union_def frame_align_def frame_reindex_def reindex_def
        frame_from_dict_def)

lemma flex_series_series_probe:
  "flex_binary_moment (Series [0, 1] [Fin 1, Fin 2]) (Series [0, 1] [NaN, Fin 1]) (\<lambda>X Y. Inr X)
     = Inr (Series [0, 1] [NaN, Fin 2])"
  by (subst flex_binary_moment.simps) (simp add: prep_binary_def)

text \<open>
  What the covariance reducer returns on a jointly masked pair and on a pair that is
  not, and the covariance of two \<^verbatim>\<open>Series\<close>.
\<close>

lemma upt_0_3: "[0..<3] = [0, 1, 2]"
  by (simp add: upt_rec)

lemmas roll_eval = rolling_mean_def rolling_sum_def rolling_count_def rolling_func_def
  rolling_moment_def conv_timerule_def kill_infs_def use_window_def spec_extern_def
  spec_roll_def window_at_def stat_mean_def stat_sum_def upt_0_3 fsub_def inf_signed_def

lemma get_cov_joint:
  "get_cov spec_extern 3 (Some 1) None (Series [0, 1, 2] [NaN, Fin 2, Fin 3])
      (Series [0, 1, 2] [NaN, Fin 1, Fin 2])
     = Inr (Series [0, 1, 2] [NaN, NaN, Fin (1 / 2)])"
  by (simp add: get_cov_def roll_eval)

lemma get_cov_unmasked:
  "get_cov spec_extern 3 (Some 1) None (Series [0, 1, 2] [Fin 1, Fin 2, Fin 3])
      (Series [0, 1, 2] [NaN, Fin 1, Fin 2])
     = Inr (Series [0, 1, 2] [NaN, PInf, Fin 2])"
  by (simp add: get_cov_def roll_eval)

lemma rolling_cov_series_series:
  "rolling_cov spec_extern (Series [0, 1, 2] [Fin 1, Fin 2, Fin 3])
      (Series [0, 1, 2] [NaN, Fin 1, Fin 2]) 3 (Some 1) None
     = Inr (Series [0, 1, 2] [NaN, NaN, Fin (1 / 2)])"
  unfolding rolling_cov_def
  by (subst flex_binary_moment.simps) (simp add: prep_binary_def get_cov_joint)

text \<open>
  Claim C4 says that for every pair of operands of a paired operation the reducer sees
  a value at a position only when both inputs have one there.  The branch of
  \<open>_flex_binary_moment\<close> for a frame and a \<^verbatim>\<open>Series\<close> aligns the indices and calls the
  reducer on the column as it is, without adding zero times the other side: the
  reducer sees the first value of the column although the \<^verbatim>\<open>Series\<close> is missing there.
  The rolling covariance of the column \<open>[1, 2, 3]\<close> with the \<^verbatim>\<open>Series\<close> \<open>[NaN, 1, 2]\<close>
  (window 3, \<open>min_periods\<close> 1) is \<open>[NaN, inf, 2]\<close>; the same data as two \<^verbatim>\<open>Series\<close> give
  \<open>[NaN, NaN, 1/2]\<close>.
\<close>

theorem C4_frame_series_not_jointly_masked:
  "flex_binary_moment (DataFrame [0, 1] [(''a'', [Fin 1, Fin 2])]) (Series [0, 1] [NaN, Fin 1])
      (\<lambda>X Y. Inr X)
     = Inr (DataFrame [0, 1] [(''a'', [Fin 1, Fin 2])])
   \<and> rolling_cov spec_extern (DataFrame [0, 1, 2] [(''a'', [Fin 1, Fin 2, Fin 3])])
      (Series [0, 1, 2] [NaN, Fin 1, Fin 2]) 3 (Some 1) None
     = Inr (DataFrame [0, 1, 2] [(''a'', [NaN, PInf, Fin 2])])"
proof -
  have probe: "flex_binary_moment (DataFrame [0, 1] [(''a'', [Fin 1, Fin 2])])
      (Series [0, 1] [NaN, Fin 1]) (\<lambda>X Y. Inr X)
     = Inr (DataFrame [0, 1] [(''a'', [Fin 1, Fin 2])])"
    by (subst flex_binary_moment.simps)
       (simp add: index_union_def frame_reindex_def reindex_def frame_from_dict_def)
  have cov: "rolling_cov spec_extern (DataFrame [0, 1, 2] [(''a'', [Fin 1, Fin 2, Fin 3])])
      (Series [0, 1, 2] [NaN, Fin 1, Fin 2]) 3 (Some 1) None
     = Inr (DataFrame [0, 1, 2] [(''a'', [NaN, PInf, Fin 2])])"
    unfolding rolling_cov_def
    by (subst flex_binary_moment.simps)
       (simp add: index_union_def frame_reindex_def reindex_def frame_from_dict_def
          get_cov_unmasked)
  from probe cov show ?thesis by simp
qed

subsection \<open>The output has the shape of the input\<close>

lemma zip_names_shape:
  "length ys = length cols \<Longrightarrow> map fst (zip (map fst cols) ys) = map fst cols"
  by (simp add: map_fst_zip)

lemma zip_names_lengths:
  "length ys = length cols \<Longrightarrow>
   map (\<lambda>c. length (snd c)) (zip (map fst cols) ys) = map length ys"
proof -
  assume "length ys = length cols"
  then have "map snd (zip (map fst cols) ys) = ys" by (simp add: map_snd_zip)
  moreover have "map (\<lambda>c. length (snd c)) (zip (map fst cols) ys)
      = map length (map snd (zip (map fst cols) ys))" by simp
  ultimately show ?thesis by simp
qed

lemma hook_shape:
  assumes "\<And>x. length (f x) = length x"
  shows "shape_of (fst (process_data_structure a k)
                    (apply_along_axis f (snd (process_data_structure a k)))) = shape_of a"
proof (cases a)
  case (Raw v)
  then show ?thesis by (cases v) (simp_all add: kill_infs_def assms comp_def)
next
  case (Series idx vs)
  then show ?thesis by (simp add: kill_infs_def assms Let_def)
next
  case (DataFrame idx cols)
  then show ?thesis
    by (simp add: kill_infs_def assms zip_names_shape zip_names_lengths comp_def Let_def)
qed

lemma rolling_moment_shape:
  assumes "\<And>x. length (func x w mp) = length x"
  shows "shape_of (rolling_moment E a w func mp tr) = shape_of (conv_timerule E a tr)"
  using hook_shape [of "\<lambda>x. func x w mp" "conv_timerule E a tr" True, OF assms]
  by (simp add: rolling_moment_def Let_def case_prod_unfold)

lemma rolling_func_shape:
  assumes "\<And>x w p. length (func x w p) = length x"
  shows "shape_of (rolling_func E func check a w mp tr) = shape_of (conv_timerule E a tr)"
  unfolding rolling_func_def Let_def
  by (rule rolling_moment_shape) (rule assms)

lemma rolling_count_shape:
  assumes "\<And>x w p. length (roll_sum E x w p) = length x"
  shows "shape_of (rolling_count E a w tr) = shape_of (conv_timerule E a tr)"
proof (cases "conv_timerule E a tr")
  case (Raw v)
  then show ?thesis
    by (cases v) (simp_all add: rolling_count_def rolling_sum_Raw kill_infs_def assms
        Let_def comp_def)
next
  case (Series idx vs)
  then show ?thesis
    by (simp add: rolling_count_def rolling_sum_Raw kill_infs_def assms Let_def)
next
  case (DataFrame idx cols)
  then show ?thesis
    by (simp add: rolling_count_def rolling_sum_Raw kill_infs_def assms Let_def
        zip_names_shape zip_names_lengths comp_def)
qed

lemma emap_lengths:
  assumes "emap f cs = Inr ys" and "\<And>x y. f x = Inr y \<Longrightarrow> length (y::fl list) = length (x::fl list)"
  shows "map length ys = map length cs"
  using assms(1)
proof (induction cs arbitrary: ys)
  case Nil
  then show ?case by simp
next
  case (Cons c cs)
  from Cons.prems obtain y ys' where
    y: "f c = Inr y" and ys': "emap f cs = Inr ys'" and ys: "ys = y # ys'"
    by (auto split: sum.splits)
  from Cons.IH [OF ys'] assms(2) [OF y] ys show ?case by simp
qed

lemma hook_shape_err:
  assumes "apply_along_axis_err f (snd (process_data_structure a k)) = Inr out"
    and len: "\<And>x y. f x = Inr y \<Longrightarrow> length y = length x"
  shows "shape_of (fst (process_data_structure a k) out) = shape_of a"
proof (cases a)
  case (Raw v)
  show ?thesis
  proof (cases v)
    case (Arr1 x)
    with Raw assms(1) len show ?thesis
      by (cases k) (auto simp add: kill_infs_def split: sum.splits)
  next
    case (Arr2 cs)
    with Raw assms(1) show ?thesis
      by (cases k) (auto simp add: kill_infs_def comp_def split: sum.splits
          dest!: emap_lengths [OF _ len])
  qed
next
  case (Series idx vs)
  with assms(1) len show ?thesis
    by (cases k) (auto simp add: kill_infs_def Let_def split: sum.splits)
next
  case (DataFrame idx cols)
  with assms(1) obtain zs where
    out: "out = Arr2 zs" and
    zs: "map length zs = map length (map snd cols)"
    by (cases k) (auto simp add: kill_infs_def Let_def comp_def split: sum.splits
        dest!: emap_lengths [OF _ len])
  from zs have l: "length zs = length cols" by (metis length_map)
  from DataFrame out zs l show ?thesis
    by (simp add: zip_names_shape zip_names_lengths comp_def)
qed

lemma ewma_inner_length:
  assumes "length (tseries_ewma E v c) = length v" "ewma_inner E c mp v = Inr y"
  shows "length y = length v"
  using assms by (auto simp add: ewma_inner_def Let_def split: sum.splits)

lemma ewma_shape:
  assumes "kernels_keep_length E" "ewma E a com span' mp tr = Inr out"
  shows "shape_of out = shape_of (conv_timerule E a tr)"
proof -
  from assms(1) have k: "\<And>v c. length (tseries_ewma E v c) = length v"
    by (simp add: kernels_keep_length_def)
  from assms(2) obtain c out' where
    1: "apply_along_axis_err (ewma_inner E c mp)
          (snd (process_data_structure (conv_timerule E a tr) True)) = Inr out'"
    and 2: "out = fst (process_data_structure (conv_timerule E a tr) True) out'"
    by (auto simp add: ewma_def Let_def case_prod_unfold split: sum.splits)
  show ?thesis
    unfolding 2
    by (rule hook_shape_err [OF 1]) (rule ewma_inner_length [OF k])
qed

lemma bcast_columns_same_shape:
  "map length xs = map length ys \<Longrightarrow>
   emap (\<lambda>(x, y). bcast1 op x y) (zip xs ys) = Inr (map2 (map2 op) xs ys)"
proof (induction xs arbitrary: ys)
  case Nil
  then show ?case by simp
next
  case (Cons x xs)
  then obtain y ys' where ys: "ys = y # ys'" by (cases ys) auto
  with Cons.prems have "length x = length y" "map length xs = map length ys'" by simp_all
  with Cons.IH [of ys'] show ?case by (simp add: ys bcast1_same_length)
qed

lemma map2_map2_lengths:
  "map length xs = map length ys \<Longrightarrow> map length (map2 (map2 op) xs ys) = map length xs"
proof (induction xs arbitrary: ys)
  case Nil
  then show ?case by simp
next
  case (Cons x xs)
  then obtain y ys' where ys: "ys = y # ys'" by (cases ys) auto
  with Cons.prems have "length x = length y" "map length xs = map length ys'" by simp_all
  with Cons.IH [of ys'] show ?case by (simp add: ys)
qed

lemma frame_reindex_id:
  assumes "distinct (map fst cols)"
  shows "frame_reindex idx cols idx (map fst cols) = cols"
proof -
  have "(case map_of cols (fst p) of Some v \<Rightarrow> reindex idx v idx
          | None \<Rightarrow> replicate (length idx) NaN) = snd p" if "p \<in> set cols" for p
  proof -
    from that assms have "map_of cols (fst p) = Some (snd p)"
      by (metis map_of_is_SomeI prod.collapse)
    then show ?thesis by (simp add: reindex_def)
  qed
  then have "map (\<lambda>p. (fst p, case map_of cols (fst p) of Some v \<Rightarrow> reindex idx v idx
          | None \<Rightarrow> replicate (length idx) NaN)) cols = map (\<lambda>p. p) cols"
    by (intro map_cong refl) simp
  then show ?thesis by (simp add: frame_reindex_def comp_def)
qed

lemma frame_columns_shape:
  "map fst c1 = map fst c2 \<Longrightarrow> map (\<lambda>c. length (snd c)) c1 = map (\<lambda>c. length (snd c)) c2 \<Longrightarrow>
   map fst (map2 (\<lambda>(c, u) (c', v). (c, map2 op u v)) c1 c2) = map fst c1
   \<and> map (\<lambda>c. length (snd c)) (map2 (\<lambda>(c, u) (c', v). (c, map2 op u v)) c1 c2)
       = map (\<lambda>c. length (snd c)) c1"
proof (induction c1 arbitrary: c2)
  case Nil
  then show ?case by simp
next
  case (Cons p c1)
  then obtain q c2' where c2: "c2 = q # c2'" by (cases c2) auto
  with Cons.prems have "map fst c1 = map fst c2'"
    "map (\<lambda>c. length (snd c)) c1 = map (\<lambda>c. length (snd c)) c2'"
    "length (snd p) = length (snd q)" by simp_all
  with Cons.IH [of c2'] show ?case by (simp add: c2 case_prod_unfold)
qed

lemma arith_shape:
  assumes "shape_of x = shape_of y" "unique_columns x" "arith op x y = Inr z"
  shows "shape_of z = shape_of x"
proof (cases x)
  case (Raw u)
  note x = this
  show ?thesis
  proof (cases u)
    case (Arr1 a)
    with x assms(1) obtain b where y: "y = Raw (Arr1 b)" "length a = length b"
      by (cases y rule: shape_of.cases) auto
    with x Arr1 assms(3) show ?thesis by (auto simp add: bcast1_same_length)
  next
    case (Arr2 a)
    with x assms(1) obtain b where y: "y = Raw (Arr2 b)" "map length a = map length b"
      by (cases y rule: shape_of.cases) auto
    from y(2) have l: "length a = length b" by (metis length_map)
    from x Arr2 y l assms(3) have z: "z = Raw (Arr2 (map2 (map2 op) a b))"
      by (auto simp add: bcast_def bcast_columns_same_shape)
    show ?thesis
      by (simp only: z x Arr2 shape_of.simps map2_map2_lengths [OF y(2)])
  qed
next
  case (Series i a)
  with assms(1) obtain b where y: "y = Series i b" "length a = length b"
    by (cases y rule: shape_of.cases) auto
  with Series assms(3) show ?thesis by auto
next
  case (DataFrame i c1)
  with assms(1) obtain c2 where y: "y = DataFrame i c2" "map fst c1 = map fst c2"
    "map (\<lambda>c. length (snd c)) c1 = map (\<lambda>c. length (snd c)) c2"
    by (cases y rule: shape_of.cases) auto
  from DataFrame assms(2) have d1: "distinct (map fst c1)" by simp
  with y(2) have d2: "distinct (map fst c2)" by simp
  have al: "frame_align i c1 i c2 = (i, map fst c1, c1, c2)"
    using frame_reindex_id [OF d1, of i] frame_reindex_id [OF d2, of i] y(2)
    by (simp add: frame_align_def index_union_def Let_def)
  from DataFrame y(1) assms(3) al have
    z: "z = DataFrame i (map2 (\<lambda>(c, u) (c', v). (c, map2 op u v)) c1 c2)"
    by simp
  from frame_columns_shape [OF y(2,3), of op] show ?thesis
    by (simp add: z DataFrame)
qed

lemma arg_map_shape: "shape_of (arg_map g x) = shape_of x"
proof (cases x)
  case (Raw u)
  then show ?thesis by (cases u) (simp_all add: comp_def)
next
  case (Series i a)
  then show ?thesis by simp
next
  case (DataFrame i cols)
  then show ?thesis by (simp add: comp_def case_prod_unfold)
qed

lemma unique_columns_shape: "shape_of x = shape_of y \<Longrightarrow> unique_columns x = unique_columns y"
  by (cases x rule: shape_of.cases; cases y rule: shape_of.cases) simp_all

lemma ewmvar_shape:
  assumes k: "kernels_keep_length E" and u: "unique_columns (conv_timerule E a tr)"
    and r: "ewmvar E a com span' mp bias tr = Inr out"
  shows "shape_of out = shape_of (conv_timerule E a tr)"
proof -
  let ?a = "conv_timerule E a tr"
  from r obtain c where c: "get_center_of_mass com span' = Inr c"
    by (auto simp add: ewmvar_def ebind_def split: sum.splits)
  from r c obtain sq where sq: "arith fmul ?a ?a = Inr sq"
    by (auto simp add: ewmvar_def Let_def ebind_def split: sum.splits)
  from r c sq obtain m2 where m2: "ewma E sq (Some c) None mp None = Inr m2"
    by (auto simp add: ewmvar_def Let_def ebind_def split: sum.splits)
  from r c sq m2 obtain m1 where m1: "ewma E ?a (Some c) None mp None = Inr m1"
    by (auto simp add: ewmvar_def Let_def ebind_def split: sum.splits)
  from r c sq m2 m1 obtain d where d: "arith fsub m2 (arg_map (\<lambda>v. fmul v v) m1) = Inr d"
    by (auto simp add: ewmvar_def Let_def ebind_def split: sum.splits)
  have out: "shape_of out = shape_of d"
  proof (cases bias)
    case True
    with r c sq m2 m1 d show ?thesis by (simp add: ewmvar_def Let_def)
  next
    case False
    with r c sq m2 m1 d obtain f where "out = arg_map (\<lambda>v. fmul v (Fin f)) d"
      by (auto simp add: ewmvar_def Let_def ebind_def split: sum.splits)
    then show ?thesis by (simp add: arg_map_shape)
  qed
  have s_sq: "shape_of sq = shape_of ?a"
    by (rule arith_shape [OF refl u sq])
  have s_m2: "shape_of m2 = shape_of ?a"
    using ewma_shape [OF k m2] s_sq by (simp add: conv_timerule_def)
  have s_m1: "shape_of m1 = shape_of ?a"
    using ewma_shape [OF k m1] by (simp add: conv_timerule_def)
  have u_m2: "unique_columns m2"
    using unique_columns_shape [OF s_m2] u by simp
  have "shape_of d = shape_of m2"
    by (rule arith_shape [OF _ u_m2 d]) (simp add: arg_map_shape s_m1 s_m2)
  with out s_m2 show ?thesis by simp
qed

lemma ewmstd_shape:
  assumes k: "kernels_keep_length E" and u: "unique_columns (conv_timerule E a tr)"
    and r: "ewmstd E a com span' mp bias tr = Inr out"
  shows "shape_of out = shape_of (conv_timerule E a tr)"
proof -
  from r obtain v where v: "ewmvar E a com span' mp bias tr = Inr v" and o: "out = arg_map fsqrt v"
    by (auto simp add: ewmstd_def ebind_def split: sum.splits)
  from ewmvar_shape [OF k u v] o show ?thesis by (simp add: arg_map_shape)
qed

lemma length_spec_roll: "length (spec_roll stat x w p) = length x"
  by (simp add: spec_roll_def)

lemma length_spec_roll_generic: "length (spec_roll_generic x w p g) = length x"
  by (simp add: spec_roll_generic_def)

lemma length_spec_ewma_from: "length (spec_ewma_from alpha prev x) = length x"
  by (induction alpha prev x rule: spec_ewma_from.induct) (simp_all add: Let_def)

lemma kernels_keep_length_spec: "kernels_keep_length spec_extern"
  by (simp add: kernels_keep_length_def spec_extern_def length_spec_roll
      length_spec_roll_generic spec_ewma_def length_spec_ewma_from)

lemma length_ts_std: "kernels_keep_length E \<Longrightarrow> length (ts_std E x w p) = length x"
  by (simp add: ts_std_def kernels_keep_length_def)

text \<open>
  Claim C9: with kernels that return as many values as they are given, the result of
  every single-argument operation has the shape of its input: the same length, for a
  \<^verbatim>\<open>Series\<close> the same index, for a frame the same index and the same columns.  The
  input is the argument after \<open>_conv_timerule\<close>, which is the argument itself when no
  time rule is given (last conjunct).  The rolling operations always return; the
  exponentially weighted ones can raise, and the statement is about the result they
  return; for \<open>ewmvar\<close> and \<open>ewmstd\<close> the columns of a frame have unique names.
\<close>

theorem C9_output_shape:
  assumes "kernels_keep_length E"
  shows "shape_of (rolling_count E a w tr) = shape_of (conv_timerule E a tr)
       \<and> shape_of (rolling_max E a w mp tr) = shape_of (conv_timerule E a tr)
       \<and> shape_of (rolling_min E a w mp tr) = shape_of (conv_timerule E a tr)
       \<and> shape_of (rolling_sum E a w mp tr) = shape_of (conv_timerule E a tr)
       \<and> shape_of (rolling_mean E a w mp tr) = shape_of (conv_timerule E a tr)
       \<and> shape_of (rolling_median E a w mp tr) = shape_of (conv_timerule E a tr)
       \<and> shape_of (rolling_std E a w mp tr) = shape_of (conv_timerule E a tr)
       \<and> shape_of (rolling_var E a w mp tr) = shape_of (conv_timerule E a tr)
       \<and> shape_of (rolling_skew E a w mp tr) = shape_of (conv_timerule E a tr)
       \<and> shape_of (rolling_kurt E a w mp tr) = shape_of (conv_timerule E a tr)
       \<and> shape_of (rolling_quantile E a w q mp tr) = shape_of (conv_timerule E a tr)
       \<and> shape_of (rolling_apply E a w g mp tr) = shape_of (conv_timerule E a tr)
       \<and> (ewma E a com span' n tr = Inr out \<longrightarrow> shape_of out = shape_of (conv_timerule E a tr))
       \<and> (unique_columns (conv_timerule E a tr) \<and> ewmvar E a com span' n bias tr = Inr out
            \<longrightarrow> shape_of out = shape_of (conv_timerule E a tr))
       \<and> (unique_columns (conv_timerule E a tr) \<and> ewmstd E a com span' n bias tr = Inr out
            \<longrightarrow> shape_of out = shape_of (conv_timerule E a tr))
       \<and> (unique_columns (conv_timerule E a tr) \<and> ewmvol E a com span' n bias tr = Inr out
            \<longrightarrow> shape_of out = shape_of (conv_timerule E a tr))
       \<and> conv_timerule E a None = a"
proof -
  note k = assms [unfolded kernels_keep_length_def]
  have count: "shape_of (rolling_count E a w tr) = shape_of (conv_timerule E a tr)"
    by (rule rolling_count_shape) (simp add: k)
  have mx: "shape_of (rolling_max E a w mp tr) = shape_of (conv_timerule E a tr)"
    unfolding rolling_max_def by (rule rolling_func_shape) (simp add: k)
  have mn: "shape_of (rolling_min E a w mp tr) = shape_of (conv_timerule E a tr)"
    unfolding rolling_min_def by (rule rolling_func_shape) (simp add: k)
  have sm: "shape_of (rolling_sum E a w mp tr) = shape_of (conv_timerule E a tr)"
    unfolding rolling_sum_def by (rule rolling_func_shape) (simp add: k)
  have mean: "shape_of (rolling_mean E a w mp tr) = shape_of (conv_timerule E a tr)"
    unfolding rolling_mean_def by (rule rolling_func_shape) (simp add: k)
  have med: "shape_of (rolling_median E a w mp tr) = shape_of (conv_timerule E a tr)"
    unfolding rolling_median_def by (rule rolling_func_shape) (simp add: k)
  have std: "shape_of (rolling_std E a w mp tr) = shape_of (conv_timerule E a tr)"
    unfolding rolling_std_def by (rule rolling_func_shape) (rule length_ts_std [OF assms])
  have var: "shape_of (rolling_var E a w mp tr) = shape_of (conv_timerule E a tr)"
    unfolding rolling_var_def by (rule rolling_func_shape) (simp add: k)
  have skew: "shape_of (rolling_skew E a w mp tr) = shape_of (conv_timerule E a tr)"
    unfolding rolling_skew_def by (rule rolling_func_shape) (simp add: k)
  have kurt: "shape_of (rolling_kurt E a w mp tr) = shape_of (conv_timerule E a tr)"
    unfolding rolling_kurt_def by (rule rolling_func_shape) (simp add: k)
  have quant: "shape_of (rolling_quantile E a w q mp tr) = shape_of (conv_timerule E a tr)"
    unfolding rolling_quantile_def Let_def by (rule rolling_moment_shape) (simp add: k)
  have app: "shape_of (rolling_apply E a w g mp tr) = shape_of (conv_timerule E a tr)"
    unfolding rolling_apply_def Let_def by (rule rolling_moment_shape) (simp add: k)
  have e1: "ewma E a com span' n tr = Inr out \<longrightarrow> shape_of out = shape_of (conv_timerule E a tr)"
    using ewma_shape [OF assms] by blast
  have e2: "unique_columns (conv_timerule E a tr) \<and> ewmvar E a com span' n bias tr = Inr out
            \<longrightarrow> shape_of out = shape_of (conv_timerule E a tr)"
    using ewmvar_shape [OF assms] by blast
  have e3: "unique_columns (conv_timerule E a tr) \<and> ewmstd E a com span' n bias tr = Inr out
            \<longrightarrow> shape_of out = shape_of (conv_timerule E a tr)"
    using ewmstd_shape [OF assms] by blast
  have e4: "unique_columns (conv_timerule E a tr) \<and> ewmvol E a com span' n bias tr = Inr out
            \<longrightarrow> shape_of out = shape_of (conv_timerule E a tr)"
    using e3 by (simp add: ewmvol_def)
  have id: "conv_timerule E a None = a"
    by (simp add: conv_timerule_def)
  from count mx mn sm mean med std var skew kurt quant app e1 e2 e3 e4 id
  show ?thesis by (intro conjI)
qed

theorem C9_output_shape_witness:
  "kernels_keep_length spec_extern
   \<and> shape_of (rolling_mean spec_extern (Series [0, 1] [Fin 1, Fin 2]) 2 None None)
       = SeriesShape [0, 1] 2
   \<and> ewma spec_extern (Series [0, 1] [Fin 1, Fin 2]) (Some 1) None 0 None
       = Inr (Series [0, 1] [Fin 1, Fin (3 / 2)])
   \<and> shape_of (Series [0, 1] [Fin 1, Fin (3 / 2)]) = shape_of (Series [0, 1] [Fin 1, Fin 2])"
proof -
  have e: "ewma spec_extern (Series [0, 1] [Fin 1, Fin 2]) (Some 1) None 0 None
       = Inr (Series [0, 1] [Fin 1, Fin (3 / 2)])"
    by (simp add: ewma_eval_defs fsub_def)
  show ?thesis
    using kernels_keep_length_spec e
      C9_output_shape [OF kernels_keep_length_spec, of "Series [0, 1] [Fin 1, Fin 2]" 2 None None
        _ _ "Some 1" None 0 "Series [0, 1] [Fin 1, Fin (3 / 2)]"]
    by (simp add: conv_timerule_def)
qed

end
